theory Spec2Isabelle
  imports Main
begin

section \<open>Data model\<close>

text \<open>
  \<^verbatim>\<open>IdentityUser\<close> of \<^verbatim>\<open>src/lib/auth/identity.ts\<close>: the subject id and the optional
  role list (\<^verbatim>\<open>roles?: string[]\<close>, \<open>None\<close> is \<^verbatim>\<open>undefined\<close>). The e-mail and metadata
  fields are read by no function modelled here. A user argument of type
  \<^verbatim>\<open>IdentityUser | undefined\<close> is an \<open>IdentityUser option\<close>.
\<close>

record IdentityUser =
  sub :: string
  roles :: "string list option"

text \<open>\<^verbatim>\<open>Permission\<close> of \<^verbatim>\<open>rbac.ts\<close> is the union type \<^verbatim>\<open>"read" | "write"\<close>.\<close>

datatype Permission = READ | WRITE

text \<open>The enums and tables of the Drizzle schema (\<^verbatim>\<open>statusEnum\<close>, \<^verbatim>\<open>localeEnum\<close>, \<^verbatim>\<open>service\<close>,
  \<^verbatim>\<open>l10n_key\<close>, \<^verbatim>\<open>translation\<close>, \<^verbatim>\<open>event\<close>). A nullable column is an \<open>option\<close>; the
  timestamp columns are left out, no modelled function reads them.\<close>

datatype status = draft | active | archived

datatype locale_code = EN | ES | FR | DE | IT | PT | RU | JA | KO | ZH | AR | HI

record service =
  svc_id :: string
  svc_code :: string
  svc_owners :: "string list"

record l10nKey =
  key_id :: string
  key_serviceId :: "string option"
  key_namespaceId :: "string option"
  keyName :: string
  tags :: "string list"
  key_status :: status

record translation =
  tr_id :: string
  tr_keyId :: string
  tr_locale :: locale_code
  tr_value :: "string option"
  tr_status :: status
  version :: int

text \<open>JSON values, as stored in the \<^verbatim>\<open>jsonb\<close> columns \<^verbatim>\<open>before\<close> and \<^verbatim>\<open>after\<close> of an event.
  An object is the list of its entries in insertion order; the numbers are the integers,
  the only numbers the modelled code writes.\<close>

datatype json =
  JNull
  | JBool bool
  | JNum int
  | JStr string
  | JArr "json list"
  | JObj "(string \<times> json) list"

record event =
  ev_id :: string
  ev_actor :: string
  ev_action :: string
  ev_entityType :: string
  ev_entityId :: string
  ev_before :: "json option"
  ev_after :: "json option"

record db =
  service_rows :: "service list"
  key_rows :: "l10nKey list"
  translation_rows :: "translation list"
  event_rows :: "event list"

text \<open>
  Every database statement may throw. The environment says which kinds of statement
  fail, gives the values returned by \<^verbatim>\<open>crypto.randomUUID()\<close> (the \<open>n\<close>-th call returns
  \<open>uuid env n\<close>), the host's \<^verbatim>\<open>String.prototype.localeCompare\<close>, and the rendering of
  \<^verbatim>\<open>new Date()\<close>. An \<open>error\<close> is a thrown exception: a failed statement, a violated primary
  key, an integer outside the column's range, a \<^verbatim>\<open>TypeError\<close> or a \<^verbatim>\<open>SyntaxError\<close>.
\<close>

datatype db_op =
  Select_service | Select_key | Select_translation
  | Insert_key | Update_key | Insert_translation | Update_translation | Insert_event

datatype error =
  DbError db_op | UniqueViolation string | OutOfRange int | TypeError | SyntaxError

record env =
  fails :: "db_op \<Rightarrow> bool"
  uuid :: "nat \<Rightarrow> string"
  localeCompare :: "string \<Rightarrow> string \<Rightarrow> int"
  now :: string

section \<open>Role policy (\<^verbatim>\<open>src/lib/auth/rbac.ts\<close>)\<close>

definition hasRole :: "IdentityUser option \<Rightarrow> string \<Rightarrow> bool" where
  "hasRole user role =
     (case user of None \<Rightarrow> False
      | Some u \<Rightarrow> (case roles u of None \<Rightarrow> False | Some rs \<Rightarrow> role \<in> set rs))"

definition hasAnyRole :: "IdentityUser option \<Rightarrow> string list \<Rightarrow> bool" where
  "hasAnyRole user rls =
     (case user of None \<Rightarrow> False
      | Some u \<Rightarrow> (case roles u of None \<Rightarrow> False
                   | Some rs \<Rightarrow> list_ex (\<lambda>role. role \<in> set rs) rls))"

definition hasAllRoles :: "IdentityUser option \<Rightarrow> string list \<Rightarrow> bool" where
  "hasAllRoles user rls =
     (case user of None \<Rightarrow> False
      | Some u \<Rightarrow> (case roles u of None \<Rightarrow> False
                   | Some rs \<Rightarrow> list_all (\<lambda>role. role \<in> set rs) rls))"

definition isAdmin :: "IdentityUser option \<Rightarrow> bool" where
  "isAdmin user = hasRole user ''Admin''"

definition isOwner :: "IdentityUser option \<Rightarrow> bool" where
  "isOwner user = hasRole user ''Owner''"

definition canEdit :: "IdentityUser option \<Rightarrow> bool" where
  "canEdit user = hasAnyRole user [''Admin'', ''Owner'', ''Editor'']"

definition canReview :: "IdentityUser option \<Rightarrow> bool" where
  "canReview user = hasAnyRole user [''Admin'', ''Owner'', ''Editor'', ''Reviewer'']"

definition canView :: "IdentityUser option \<Rightarrow> bool" where
  "canView user = hasAnyRole user [''Admin'', ''Owner'', ''Editor'', ''Reviewer'', ''Viewer'']"

text \<open>The \<^verbatim>\<open>switch (permission)\<close> that ends every access check: read needs \<^verbatim>\<open>canView\<close>,
  write needs \<^verbatim>\<open>canEdit\<close>. Its \<^verbatim>\<open>default\<close> branch is unreachable for a \<^verbatim>\<open>Permission\<close>.\<close>

definition roleDecision :: "IdentityUser option \<Rightarrow> Permission \<Rightarrow> bool" where
  "roleDecision user permission =
     (case permission of READ \<Rightarrow> canView user | WRITE \<Rightarrow> canEdit user)"

section \<open>Queries of the access checks\<close>

text \<open>\<^verbatim>\<open>db.select({owners}).from(service).where(eq(service.id, serviceId)).limit(1)\<close>\<close>

definition select_service_owners :: "env \<Rightarrow> db \<Rightarrow> string \<Rightarrow> error + string list list" where
  "select_service_owners e d serviceId =
     (if fails e Select_service then Inl (DbError Select_service)
      else Inr (take 1 (map svc_owners (filter (\<lambda>s. svc_id s = serviceId) (service_rows d)))))"

text \<open>The left join of a key with its service: one row per matching service, or one row
  with the service columns null when there is none.\<close>

definition left_join_service :: "db \<Rightarrow> l10nKey \<Rightarrow> (string option \<times> string list option) list" where
  "left_join_service d k =
     (case filter (\<lambda>s. key_serviceId k = Some (svc_id s)) (service_rows d) of
        [] \<Rightarrow> [(key_serviceId k, None)]
      | ss \<Rightarrow> map (\<lambda>s. (key_serviceId k, Some (svc_owners s))) ss)"

text \<open>\<^verbatim>\<open>from(translation).innerJoin(l10nKey, ...).leftJoin(service, ...).where(eq(translation.id, id)).limit(1)\<close>,
  projected on \<^verbatim>\<open>serviceId\<close> and \<^verbatim>\<open>serviceOwners\<close>.\<close>

definition select_translation_with_service ::
  "env \<Rightarrow> db \<Rightarrow> string \<Rightarrow> error + (string option \<times> string list option) list" where
  "select_translation_with_service e d translationId =
     (if fails e Select_translation then Inl (DbError Select_translation)
      else Inr (take 1 (concat (map (\<lambda>t.
             concat (map (left_join_service d)
               (filter (\<lambda>k. key_id k = tr_keyId t) (key_rows d))))
             (filter (\<lambda>t. tr_id t = translationId) (translation_rows d))))))"

text \<open>\<^verbatim>\<open>from(l10nKey).leftJoin(service, ...).where(eq(l10nKey.id, keyId)).limit(1)\<close>\<close>

definition select_key_with_service ::
  "env \<Rightarrow> db \<Rightarrow> string \<Rightarrow> error + (string option \<times> string list option) list" where
  "select_key_with_service e d keyId =
     (if fails e Select_key then Inl (DbError Select_key)
      else Inr (take 1 (concat (map (left_join_service d)
             (filter (\<lambda>k. key_id k = keyId) (key_rows d))))))"

text \<open>\<^verbatim>\<open>try { ... } catch (error) { console.error(...); return false; }\<close>\<close>

definition catch_false :: "error + bool \<Rightarrow> error + bool" where
  "catch_false r = (case r of Inl _ \<Rightarrow> Inr False | Inr b \<Rightarrow> Inr b)"

text \<open>JavaScript's \<^verbatim>\<open>!serviceId\<close> on a \<^verbatim>\<open>string | null\<close>: null and the empty string are falsy.\<close>

definition falsy :: "string option \<Rightarrow> bool" where
  "falsy s = (case s of None \<Rightarrow> True | Some v \<Rightarrow> v = [])"

section \<open>Resource access checks (\<^verbatim>\<open>rbac.ts\<close>, \<^verbatim>\<open>translation-access.ts\<close>, \<^verbatim>\<open>service-access\<close>)\<close>

definition isServiceOwner :: "env \<Rightarrow> db \<Rightarrow> IdentityUser option \<Rightarrow> string \<Rightarrow> error + bool" where
  "isServiceOwner e d user serviceId =
     (case user of None \<Rightarrow> Inr False
      | Some u \<Rightarrow> catch_false
          (case select_service_owners e d serviceId of
             Inl err \<Rightarrow> Inl err
           | Inr [] \<Rightarrow> Inr False
           | Inr (ow # _) \<Rightarrow> Inr (sub u \<in> set ow)))"

definition canAccessService ::
  "env \<Rightarrow> db \<Rightarrow> IdentityUser option \<Rightarrow> string \<Rightarrow> Permission \<Rightarrow> error + bool" where
  "canAccessService e d user serviceId permission =
     (case user of None \<Rightarrow> Inr False
      | Some u \<Rightarrow>
          if isAdmin user then Inr True
          else (case isServiceOwner e d user serviceId of
                  Inl err \<Rightarrow> Inl err
                | Inr True \<Rightarrow> Inr True
                | Inr False \<Rightarrow> Inr (roleDecision user permission)))"

definition validateServiceAccess ::
  "env \<Rightarrow> db \<Rightarrow> IdentityUser option \<Rightarrow> string \<Rightarrow> Permission \<Rightarrow> error + bool" where
  "validateServiceAccess e d user serviceId permission =
     (case user of None \<Rightarrow> Inr False
      | Some u \<Rightarrow>
          if isAdmin user then Inr True
          else catch_false
            (case select_service_owners e d serviceId of
               Inl err \<Rightarrow> Inl err
             | Inr [] \<Rightarrow> Inr False
             | Inr (ow # _) \<Rightarrow>
                 if sub u \<in> set ow then Inr True
                 else Inr (roleDecision user permission)))"

definition validateTranslationAccess ::
  "env \<Rightarrow> db \<Rightarrow> IdentityUser option \<Rightarrow> string \<Rightarrow> Permission \<Rightarrow> error + bool" where
  "validateTranslationAccess e d user translationId permission =
     (case user of None \<Rightarrow> Inr False
      | Some u \<Rightarrow>
          if isAdmin user then Inr True
          else catch_false
            (case select_translation_with_service e d translationId of
               Inl err \<Rightarrow> Inl err
             | Inr [] \<Rightarrow> Inr False
             | Inr ((serviceId, serviceOwners) # _) \<Rightarrow>
                 if falsy serviceId then Inr (roleDecision user permission)
                 else if (case serviceOwners of None \<Rightarrow> False | Some ow \<Rightarrow> sub u \<in> set ow)
                   then Inr True
                 else Inr (roleDecision user permission)))"

definition validateTranslationAccessByKey ::
  "env \<Rightarrow> db \<Rightarrow> IdentityUser option \<Rightarrow> string \<Rightarrow> Permission \<Rightarrow> error + bool" where
  "validateTranslationAccessByKey e d user keyId permission =
     (case user of None \<Rightarrow> Inr False
      | Some u \<Rightarrow>
          if isAdmin user then Inr True
          else catch_false
            (case select_key_with_service e d keyId of
               Inl err \<Rightarrow> Inl err
             | Inr [] \<Rightarrow> Inr False
             | Inr ((serviceId, serviceOwners) # _) \<Rightarrow>
                 if falsy serviceId then Inr (roleDecision user permission)
                 else validateServiceAccess e d user (the serviceId) permission))"

section \<open>Query filter for key lists (\<^verbatim>\<open>addKeyServiceAccessFilter\<close>)\<close>

text \<open>
  The filter adds a \<^verbatim>\<open>WHERE\<close> condition to a query over \<^verbatim>\<open>l10n_key\<close>; the model is the
  condition as a predicate on a key row: \<open>addKeyServiceAccessFilter d user permission k\<close>
  holds when the filtered query keeps row \<open>k\<close>. \<^verbatim>\<open>accessibleServiceIds\<close> is the subquery
  \<^verbatim>\<open>select id from service where user.sub = ANY(owners)\<close>.
\<close>

definition accessibleServiceIds :: "db \<Rightarrow> IdentityUser \<Rightarrow> string list" where
  "accessibleServiceIds d u = map svc_id (filter (\<lambda>s. sub u \<in> set (svc_owners s)) (service_rows d))"

definition addKeyServiceAccessFilter ::
  "db \<Rightarrow> IdentityUser option \<Rightarrow> Permission \<Rightarrow> l10nKey \<Rightarrow> bool" where
  "addKeyServiceAccessFilter d user permission k =
     (case user of None \<Rightarrow> key_id k = ''impossible-key-id''
      | Some u \<Rightarrow>
          if isAdmin user then True
          else if permission = READ \<and> canView user then True
          else if permission = WRITE \<and> \<not> canEdit user then key_id k = ''impossible-key-id''
          else (case key_serviceId k of
                  None \<Rightarrow> True
                | Some sid \<Rightarrow> sid \<in> set (accessibleServiceIds d u)))"

text \<open>
  The single-resource check on a key row, as the specification words it: the service
  check on the key's service, or the role-only decision for a key with no service
  (with the absent-user and Admin cases of every check in front).
\<close>

definition keyPointCheck ::
  "env \<Rightarrow> db \<Rightarrow> IdentityUser option \<Rightarrow> Permission \<Rightarrow> l10nKey \<Rightarrow> bool" where
  "keyPointCheck e d user permission k =
     (case key_serviceId k of
        None \<Rightarrow> user \<noteq> None \<and> (isAdmin user \<or> roleDecision user permission)
      | Some sid \<Rightarrow> validateServiceAccess e d user sid permission = Inr True)"

text \<open>The environment in which no statement fails.\<close>

definition healthy :: "env \<Rightarrow> bool" where
  "healthy e = (\<forall>op. \<not> fails e op)"

fun codeunit_compare :: "string \<Rightarrow> string \<Rightarrow> int" where
  "codeunit_compare [] [] = 0"
| "codeunit_compare [] (b # bs) = - 1"
| "codeunit_compare (a # as) [] = 1"
| "codeunit_compare (a # as) (b # bs) =
     (if (of_char a :: nat) < of_char b then - 1
      else if (of_char b :: nat) < of_char a then 1
      else codeunit_compare as bs)"

definition env0 :: env where
  "env0 = \<lparr> fails = (\<lambda>_. False), uuid = (\<lambda>n. replicate (Suc n) CHR ''u''),
            localeCompare = codeunit_compare, now = ''2025-01-01T00:00:00.000Z'' \<rparr>"

text \<open>Referential integrity of \<^verbatim>\<open>l10n_key.service_id\<close> and the primary key of \<^verbatim>\<open>service\<close>.\<close>

definition key_service_exists :: "db \<Rightarrow> l10nKey \<Rightarrow> bool" where
  "key_service_exists d k =
     (case key_serviceId k of None \<Rightarrow> True | Some sid \<Rightarrow> sid \<in> set (map svc_id (service_rows d)))"

definition owns_service_of :: "db \<Rightarrow> IdentityUser \<Rightarrow> l10nKey \<Rightarrow> bool" where
  "owns_service_of d u k =
     (case key_serviceId k of None \<Rightarrow> False
      | Some sid \<Rightarrow> list_ex (\<lambda>s. svc_id s = sid \<and> sub u \<in> set (svc_owners s)) (service_rows d))"

section \<open>The import payload (\<^verbatim>\<open>lib/api/import-export-types\<close>)\<close>

text \<open>
  The module \<^verbatim>\<open>lib/api/import-export-types\<close>, whose text follows that of
  \<^verbatim>\<open>src/lib/db/index.ts\<close> in the sources, declares \<^verbatim>\<open>supportedLocales\<close>,
  \<^verbatim>\<open>translationStatusEnum\<close>, the schema \<^verbatim>\<open>importPayloadSchema\<close> and its output type
  \<^verbatim>\<open>ImportPayload = z.infer<typeof importPayloadSchema>\<close>. The three records are that
  output type, what \<^verbatim>\<open>safeParse\<close> hands to the route in \<^verbatim>\<open>parsed.data\<close> once the defaults
  are filled in: \<^verbatim>\<open>locale\<close> and \<^verbatim>\<open>status\<close> are members of the two enumerations, \<^verbatim>\<open>value\<close> is a
  string, \<^verbatim>\<open>version\<close> a number, \<^verbatim>\<open>namespaceId\<close> a string or \<^verbatim>\<open>undefined\<close> (here \<open>None\<close>),
  \<^verbatim>\<open>tags\<close> and \<^verbatim>\<open>translations\<close> arrays that are always present. \<^verbatim>\<open>ip_keys\<close> is \<^verbatim>\<open>data.keys\<close>.
  What the schema demands of a body beyond its shape (a non-empty \<^verbatim>\<open>service\<close>, \<^verbatim>\<open>id\<close> and
  \<^verbatim>\<open>keyName\<close>, a positive integer \<^verbatim>\<open>version\<close>) is in the function \<open>importPayloadSchema\<close>
  below.
\<close>

record translationData =
  td_locale :: locale_code
  td_value :: string
  td_status :: status
  td_version :: int

record keyData =
  kd_id :: string
  kd_keyName :: string
  kd_namespaceId :: "string option"
  kd_tags :: "string list"
  kd_status :: status
  kd_translations :: "translationData list"

record ImportPayload =
  ip_dryRun :: bool
  ip_service :: string
  ip_keys :: "keyData list"

text \<open>\<^verbatim>\<open>DiffReport\<close> of \<^verbatim>\<open>import.ts\<close>; the four counters of \<^verbatim>\<open>summary\<close> are fields of the
  report itself, and the \<^verbatim>\<open>type\<close> strings \<^verbatim>\<open>"create_key"\<close>, \<^verbatim>\<open>"update_key"\<close>,
  \<^verbatim>\<open>"create_translation"\<close>, \<^verbatim>\<open>"update_translation"\<close> are the constructors of \<open>change_type\<close>.\<close>

datatype change_type = CreateKey | UpdateKey | CreateTranslation | UpdateTranslation

record change =
  ch_type :: change_type
  ch_keyId :: string
  ch_keyName :: string
  ch_locale :: "locale_code option"
  ch_before :: "json option"
  ch_after :: json

record DiffReport =
  keysToCreate :: nat
  keysToUpdate :: nat
  translationsToCreate :: nat
  translationsToUpdate :: nat
  changes :: "change list"

definition empty_report :: DiffReport where
  "empty_report = \<lparr> keysToCreate = 0, keysToUpdate = 0, translationsToCreate = 0,
                     translationsToUpdate = 0, changes = [] \<rparr>"

subsection \<open>Snapshots written into reports and events\<close>

fun status_str :: "status \<Rightarrow> string" where
  "status_str draft = ''draft''"
| "status_str active = ''active''"
| "status_str archived = ''archived''"

fun locale_str :: "locale_code \<Rightarrow> string" where
  "locale_str EN = ''en''" | "locale_str ES = ''es''" | "locale_str FR = ''fr''"
| "locale_str DE = ''de''" | "locale_str IT = ''it''" | "locale_str PT = ''pt''"
| "locale_str RU = ''ru''" | "locale_str JA = ''ja''" | "locale_str KO = ''ko''"
| "locale_str ZH = ''zh''" | "locale_str AR = ''ar''" | "locale_str HI = ''hi''"

definition supportedLocales :: "locale_code list" where
  "supportedLocales = [EN, ES, FR, DE, IT, PT, RU, JA, KO, ZH, AR, HI]"

definition translationStatusEnum :: "status list" where
  "translationStatusEnum = [draft, active, archived]"

subsection \<open>\<^verbatim>\<open>importPayloadSchema\<close>\<close>

text \<open>
  The schema reads the body of the request, a JSON value. Each of the functions below is
  one combinator of the validation library applied to the value of a property, \<open>None\<close>
  standing for \<^verbatim>\<open>undefined\<close> (the property is absent); the result is \<open>None\<close> when the value
  is refused. An object schema refuses what is not an object and ignores the properties
  it does not name. The numbers of \<open>json\<close> are the integers; of these \<^verbatim>\<open>.int()\<close> admits the ones
  that a double holds exactly, up to \<^verbatim>\<open>Number.MAX_SAFE_INTEGER\<close>.
\<close>

definition property :: "(string \<times> json) list \<Rightarrow> string \<Rightarrow> json option" where
  "property kvs name = map_of kvs name"

text \<open>\<^verbatim>\<open>z.string()\<close> and \<^verbatim>\<open>z.string().min(n)\<close>\<close>

definition z_string :: "json option \<Rightarrow> string option" where
  "z_string v = (case v of Some (JStr s) \<Rightarrow> Some s | _ \<Rightarrow> None)"

definition z_string_min :: "nat \<Rightarrow> json option \<Rightarrow> string option" where
  "z_string_min n v =
     (case v of Some (JStr s) \<Rightarrow> if n \<le> length s then Some s else None | _ \<Rightarrow> None)"

text \<open>\<^verbatim>\<open>z.boolean()\<close>\<close>

definition z_boolean :: "json option \<Rightarrow> bool option" where
  "z_boolean v = (case v of Some (JBool b) \<Rightarrow> Some b | _ \<Rightarrow> None)"

text \<open>\<^verbatim>\<open>z.number().int().positive()\<close>\<close>

definition MAX_SAFE_INTEGER :: int where
  "MAX_SAFE_INTEGER = 9007199254740991"

definition z_int_positive :: "json option \<Rightarrow> int option" where
  "z_int_positive v =
     (case v of
        Some (JNum n) \<Rightarrow> if 0 < n \<and> n \<le> MAX_SAFE_INTEGER then Some n else None
      | _ \<Rightarrow> None)"

text \<open>\<^verbatim>\<open>z.enum(values)\<close>, the members given with their strings\<close>

definition z_enum :: "'a list \<Rightarrow> ('a \<Rightarrow> string) \<Rightarrow> json option \<Rightarrow> 'a option" where
  "z_enum members name v =
     (case v of Some (JStr s) \<Rightarrow> find (\<lambda>x. name x = s) members | _ \<Rightarrow> None)"

text \<open>\<^verbatim>\<open>schema.optional()\<close> and \<^verbatim>\<open>schema.default(d)\<close>\<close>

definition z_optional :: "(json option \<Rightarrow> 'a option) \<Rightarrow> json option \<Rightarrow> 'a option option" where
  "z_optional schema v = (case v of None \<Rightarrow> Some None | Some j \<Rightarrow> map_option Some (schema v))"

definition z_default :: "'a \<Rightarrow> (json option \<Rightarrow> 'a option) \<Rightarrow> json option \<Rightarrow> 'a option" where
  "z_default d schema v = (case v of None \<Rightarrow> Some d | Some j \<Rightarrow> schema v)"

text \<open>\<^verbatim>\<open>z.array(item)\<close>\<close>

definition z_array :: "(json option \<Rightarrow> 'a option) \<Rightarrow> json option \<Rightarrow> 'a list option" where
  "z_array item v =
     (case v of Some (JArr xs) \<Rightarrow> those (map (\<lambda>x. item (Some x)) xs) | _ \<Rightarrow> None)"

text \<open>The object schema of one translation:
  \<^verbatim>\<open>{locale: z.enum(supportedLocales), value: z.string(),
    status: z.enum(translationStatusEnum).default("draft"),
    version: z.number().int().positive().default(1)}\<close>\<close>

definition translationSchema :: "json option \<Rightarrow> translationData option" where
  "translationSchema v =
     (case v of
        Some (JObj kvs) \<Rightarrow>
          (case (z_enum supportedLocales locale_str (property kvs ''locale''),
                 z_string (property kvs ''value''),
                 z_default draft (z_enum translationStatusEnum status_str) (property kvs ''status''),
                 z_default 1 z_int_positive (property kvs ''version'')) of
             (Some l, Some x, Some st, Some n) \<Rightarrow>
               Some \<lparr> td_locale = l, td_value = x, td_status = st, td_version = n \<rparr>
           | _ \<Rightarrow> None)
      | _ \<Rightarrow> None)"

text \<open>The object schema of one key:
  \<^verbatim>\<open>{id: z.string().min(1), keyName: z.string().min(1), namespaceId: z.string().optional(),
    tags: z.array(z.string()).default([]), status: z.enum(translationStatusEnum).default("draft"),
    translations: z.array(...).default([])}\<close>\<close>

definition keySchema :: "json option \<Rightarrow> keyData option" where
  "keySchema v =
     (case v of
        Some (JObj kvs) \<Rightarrow>
          (case (z_string_min 1 (property kvs ''id''),
                 z_string_min 1 (property kvs ''keyName''),
                 z_optional z_string (property kvs ''namespaceId''),
                 z_default [] (z_array z_string) (property kvs ''tags''),
                 z_default draft (z_enum translationStatusEnum status_str) (property kvs ''status''),
                 z_default [] (z_array translationSchema) (property kvs ''translations'')) of
             (Some i, Some kn, Some ns, Some tg, Some st, Some ts) \<Rightarrow>
               Some \<lparr> kd_id = i, kd_keyName = kn, kd_namespaceId = ns, kd_tags = tg,
                      kd_status = st, kd_translations = ts \<rparr>
           | _ \<Rightarrow> None)
      | _ \<Rightarrow> None)"

text \<open>\<^verbatim>\<open>importPayloadSchema.safeParse(body)\<close>: \<open>Some\<close> of \<^verbatim>\<open>parsed.data\<close> when \<^verbatim>\<open>parsed.success\<close>,
  \<open>None\<close> otherwise. The schema is
  \<^verbatim>\<open>{dryRun: z.boolean().default(false), service: z.string().min(1),
    data: z.object({keys: z.array(...)})}\<close>.\<close>

definition importPayloadSchema :: "json \<Rightarrow> ImportPayload option" where
  "importPayloadSchema body =
     (case body of
        JObj kvs \<Rightarrow>
          (case (z_default False z_boolean (property kvs ''dryRun''),
                 z_string_min 1 (property kvs ''service''),
                 property kvs ''data'') of
             (Some dr, Some sv, Some (JObj dkvs)) \<Rightarrow>
               (case z_array keySchema (property dkvs ''keys'') of
                  Some ks \<Rightarrow> Some \<lparr> ip_dryRun = dr, ip_service = sv, ip_keys = ks \<rparr>
                | None \<Rightarrow> None)
           | _ \<Rightarrow> None)
      | _ \<Rightarrow> None)"

text \<open>A property whose value is \<^verbatim>\<open>undefined\<close> is dropped when the object is serialised; a
  \<^verbatim>\<open>null\<close> is kept.\<close>

definition undef_field :: "string \<Rightarrow> string option \<Rightarrow> (string \<times> json) list" where
  "undef_field name v = (case v of None \<Rightarrow> [] | Some s \<Rightarrow> [(name, JStr s)])"

definition null_str :: "string option \<Rightarrow> json" where
  "null_str v = (case v of None \<Rightarrow> JNull | Some s \<Rightarrow> JStr s)"

definition incoming_key_json :: "keyData \<Rightarrow> json" where
  "incoming_key_json keyData =
     JObj ([(''keyName'', JStr (kd_keyName keyData))]
           @ undef_field ''namespaceId'' (kd_namespaceId keyData)
           @ [(''tags'', JArr (map JStr (kd_tags keyData))),
              (''status'', JStr (status_str (kd_status keyData)))])"

definition existing_key_json :: "l10nKey \<Rightarrow> json" where
  "existing_key_json existingKey =
     JObj [(''keyName'', JStr (keyName existingKey)),
           (''namespaceId'', null_str (key_namespaceId existingKey)),
           (''tags'', JArr (map JStr (tags existingKey))),
           (''status'', JStr (status_str (key_status existingKey)))]"

definition incoming_translation_json :: "translationData \<Rightarrow> json" where
  "incoming_translation_json t =
     JObj [(''locale'', JStr (locale_str (td_locale t))),
           (''value'', JStr (td_value t)),
           (''status'', JStr (status_str (td_status t))),
           (''version'', JNum (td_version t))]"

definition existing_translation_json :: "translation \<Rightarrow> json" where
  "existing_translation_json t =
     JObj [(''locale'', JStr (locale_str (tr_locale t))),
           (''value'', null_str (tr_value t)),
           (''status'', JStr (status_str (tr_status t))),
           (''version'', JNum (version t))]"

subsection \<open>Reading the existing keys of a service\<close>

text \<open>\<^verbatim>\<open>db.query.l10nKey.findMany({where: eq(l10nKey.serviceId, serviceId), with: {translations: true}})\<close>\<close>

definition find_service_keys :: "env \<Rightarrow> db \<Rightarrow> string \<Rightarrow> error + (l10nKey \<times> translation list) list" where
  "find_service_keys e d serviceId =
     (if fails e Select_key then Inl (DbError Select_key)
      else Inr (map (\<lambda>k. (k, filter (\<lambda>t. tr_keyId t = key_id k) (translation_rows d)))
                 (filter (\<lambda>k. key_serviceId k = Some serviceId) (key_rows d))))"

text \<open>\<^verbatim>\<open>new Map(entries).get(k)\<close>: a later entry with the same key replaces an earlier one.\<close>

definition js_map_get :: "('k \<times> 'v) list \<Rightarrow> 'k \<Rightarrow> 'v option" where
  "js_map_get entries k = map_of (rev entries) k"

definition existingKeyMap ::
  "(l10nKey \<times> translation list) list \<Rightarrow> string \<Rightarrow> (l10nKey \<times> translation list) option" where
  "existingKeyMap existingKeys = js_map_get (map (\<lambda>ek. (key_id (fst ek), ek)) existingKeys)"

definition existingTranslationMap :: "translation list \<Rightarrow> locale_code \<Rightarrow> translation option" where
  "existingTranslationMap ts = js_map_get (map (\<lambda>t. (tr_locale t, t)) ts)"

subsection \<open>The comparisons of the diff\<close>

text \<open>\<^verbatim>\<open>existingKey.namespaceId !== keyData.namespaceId\<close> with a \<^verbatim>\<open>string | null\<close> on the left
  and a \<^verbatim>\<open>string | undefined\<close> on the right: \<^verbatim>\<open>null !== undefined\<close> is true.\<close>

definition namespace_differs :: "string option \<Rightarrow> string option \<Rightarrow> bool" where
  "namespace_differs existing incoming =
     (case (existing, incoming) of (Some a, Some b) \<Rightarrow> a \<noteq> b | _ \<Rightarrow> True)"

text \<open>\<^verbatim>\<open>existingTranslation.value !== translationData.value\<close> with a \<^verbatim>\<open>string | null\<close> on the
  left and a string on the right.\<close>

definition value_differs :: "string option \<Rightarrow> string \<Rightarrow> bool" where
  "value_differs existing incoming = (case existing of None \<Rightarrow> True | Some a \<Rightarrow> a \<noteq> incoming)"

text \<open>\<^verbatim>\<open>JSON.stringify(existingKey.tags) !== JSON.stringify(keyData.tags)\<close>: the serialisation
  of an array of strings determines the array, so this is inequality of the two lists.\<close>

definition keyChanged :: "l10nKey \<Rightarrow> keyData \<Rightarrow> bool" where
  "keyChanged existingKey keyData =
     (keyName existingKey \<noteq> kd_keyName keyData
      \<or> namespace_differs (key_namespaceId existingKey) (kd_namespaceId keyData)
      \<or> tags existingKey \<noteq> kd_tags keyData
      \<or> key_status existingKey \<noteq> kd_status keyData)"

definition translationChanged :: "translation \<Rightarrow> translationData \<Rightarrow> bool" where
  "translationChanged existingTranslation translationData =
     (value_differs (tr_value existingTranslation) (td_value translationData)
      \<or> tr_status existingTranslation \<noteq> td_status translationData
      \<or> version existingTranslation \<noteq> td_version translationData)"

section \<open>Dry run: \<^verbatim>\<open>generateDiffReport\<close>\<close>

definition create_key_change :: "keyData \<Rightarrow> change" where
  "create_key_change keyData =
     \<lparr> ch_type = CreateKey, ch_keyId = kd_id keyData, ch_keyName = kd_keyName keyData,
       ch_locale = None, ch_before = None, ch_after = incoming_key_json keyData \<rparr>"

definition update_key_change :: "l10nKey \<Rightarrow> keyData \<Rightarrow> change" where
  "update_key_change existingKey keyData =
     \<lparr> ch_type = UpdateKey, ch_keyId = kd_id keyData, ch_keyName = kd_keyName keyData,
       ch_locale = None, ch_before = Some (existing_key_json existingKey),
       ch_after = incoming_key_json keyData \<rparr>"

definition create_translation_change :: "keyData \<Rightarrow> translationData \<Rightarrow> change" where
  "create_translation_change keyData t =
     \<lparr> ch_type = CreateTranslation, ch_keyId = kd_id keyData, ch_keyName = kd_keyName keyData,
       ch_locale = Some (td_locale t), ch_before = None,
       ch_after = incoming_translation_json t \<rparr>"

definition update_translation_change :: "keyData \<Rightarrow> translation \<Rightarrow> translationData \<Rightarrow> change" where
  "update_translation_change keyData existingTranslation t =
     \<lparr> ch_type = UpdateTranslation, ch_keyId = kd_id keyData, ch_keyName = kd_keyName keyData,
       ch_locale = Some (td_locale t),
       ch_before = Some (existing_translation_json existingTranslation),
       ch_after = incoming_translation_json t \<rparr>"

text \<open>The body of the loop over the translations of an incoming key that exists.\<close>

definition diffTranslation ::
  "keyData \<Rightarrow> (locale_code \<Rightarrow> translation option) \<Rightarrow> DiffReport \<Rightarrow> translationData \<Rightarrow> DiffReport" where
  "diffTranslation keyData etm r translationData =
     (case etm (td_locale translationData) of
        None \<Rightarrow>
          r\<lparr> translationsToCreate := translationsToCreate r + 1,
             changes := changes r @ [create_translation_change keyData translationData] \<rparr>
      | Some existingTranslation \<Rightarrow>
          if translationChanged existingTranslation translationData
          then r\<lparr> translationsToUpdate := translationsToUpdate r + 1,
                  changes := changes r
                    @ [update_translation_change keyData existingTranslation translationData] \<rparr>
          else r)"

text \<open>The body of the loop over the incoming keys.\<close>

definition diffKey ::
  "(string \<Rightarrow> (l10nKey \<times> translation list) option) \<Rightarrow> DiffReport \<Rightarrow> keyData \<Rightarrow> DiffReport" where
  "diffKey ekm r keyData =
     (case ekm (kd_id keyData) of
        None \<Rightarrow>
          (let r1 = r\<lparr> keysToCreate := keysToCreate r + 1,
                        changes := changes r @ [create_key_change keyData] \<rparr>;
               r2 = r1\<lparr> translationsToCreate :=
                          translationsToCreate r1 + length (kd_translations keyData) \<rparr>
           in foldl (\<lambda>acc t. acc\<lparr> changes := changes acc @ [create_translation_change keyData t] \<rparr>)
                r2 (kd_translations keyData))
      | Some (existingKey, existingTranslations) \<Rightarrow>
          (let r1 = (if keyChanged existingKey keyData
                     then r\<lparr> keysToUpdate := keysToUpdate r + 1,
                             changes := changes r @ [update_key_change existingKey keyData] \<rparr>
                     else r)
           in foldl (diffTranslation keyData (existingTranslationMap existingTranslations))
                r1 (kd_translations keyData)))"

definition generateDiffReport :: "env \<Rightarrow> db \<Rightarrow> string \<Rightarrow> keyData list \<Rightarrow> error + DiffReport" where
  "generateDiffReport e d serviceId importKeys =
     (case find_service_keys e d serviceId of
        Inl err \<Rightarrow> Inl err
      | Inr existingKeys \<Rightarrow> Inr (foldl (diffKey (existingKeyMap existingKeys)) empty_report importKeys))"

section \<open>Write statements\<close>

text \<open>
  A write statement returns the new database or throws. \<^verbatim>\<open>l10n_key.id\<close>, \<^verbatim>\<open>translation.id\<close>
  and \<^verbatim>\<open>event.id\<close> are primary keys; \<^verbatim>\<open>translation.version\<close> is a 32-bit \<^verbatim>\<open>integer\<close> column.
  Any other reason for a statement to fail is the environment's \<open>fails\<close>.
\<close>

definition int4 :: "int \<Rightarrow> bool" where
  "int4 v = (- 2147483648 \<le> v \<and> v \<le> 2147483647)"

definition insert_key :: "env \<Rightarrow> l10nKey \<Rightarrow> db \<Rightarrow> error + db" where
  "insert_key e k d =
     (if fails e Insert_key then Inl (DbError Insert_key)
      else if key_id k \<in> set (map key_id (key_rows d)) then Inl (UniqueViolation (key_id k))
      else Inr (d\<lparr> key_rows := key_rows d @ [k] \<rparr>))"

definition insert_translation :: "env \<Rightarrow> translation \<Rightarrow> db \<Rightarrow> error + db" where
  "insert_translation e t d =
     (if fails e Insert_translation then Inl (DbError Insert_translation)
      else if tr_id t \<in> set (map tr_id (translation_rows d)) then Inl (UniqueViolation (tr_id t))
      else if \<not> int4 (version t) then Inl (OutOfRange (version t))
      else Inr (d\<lparr> translation_rows := translation_rows d @ [t] \<rparr>))"

definition insert_event :: "env \<Rightarrow> event \<Rightarrow> db \<Rightarrow> error + db" where
  "insert_event e ev d =
     (if fails e Insert_event then Inl (DbError Insert_event)
      else if ev_id ev \<in> set (map ev_id (event_rows d)) then Inl (UniqueViolation (ev_id ev))
      else Inr (d\<lparr> event_rows := event_rows d @ [ev] \<rparr>))"

text \<open>The object given to \<^verbatim>\<open>.set(...)\<close>: a property that is absent or \<^verbatim>\<open>undefined\<close> leaves its
  column as it is.\<close>

record key_set =
  set_keyName :: "string option"
  set_namespaceId :: "string option"
  set_tags :: "string list option"
  set_key_status :: "status option"

record translation_set =
  set_locale :: "locale_code option"
  set_value :: "string option"
  set_status :: "status option"
  set_version :: "int option"

definition apply_key_set :: "key_set \<Rightarrow> l10nKey \<Rightarrow> l10nKey" where
  "apply_key_set s k =
     k\<lparr> keyName := (case set_keyName s of None \<Rightarrow> keyName k | Some v \<Rightarrow> v),
        key_namespaceId := (case set_namespaceId s of None \<Rightarrow> key_namespaceId k | Some v \<Rightarrow> Some v),
        tags := (case set_tags s of None \<Rightarrow> tags k | Some v \<Rightarrow> v),
        key_status := (case set_key_status s of None \<Rightarrow> key_status k | Some v \<Rightarrow> v) \<rparr>"

definition apply_translation_set :: "translation_set \<Rightarrow> translation \<Rightarrow> translation" where
  "apply_translation_set s t =
     t\<lparr> tr_locale := (case set_locale s of None \<Rightarrow> tr_locale t | Some v \<Rightarrow> v),
        tr_value := (case set_value s of None \<Rightarrow> tr_value t | Some v \<Rightarrow> Some v),
        tr_status := (case set_status s of None \<Rightarrow> tr_status t | Some v \<Rightarrow> v),
        version := (case set_version s of None \<Rightarrow> version t | Some v \<Rightarrow> v) \<rparr>"

text \<open>\<^verbatim>\<open>update(l10nKey).set(s).where(eq(l10nKey.id, keyId))\<close>\<close>

definition update_key :: "env \<Rightarrow> string \<Rightarrow> key_set \<Rightarrow> db \<Rightarrow> error + db" where
  "update_key e keyId s d =
     (if fails e Update_key then Inl (DbError Update_key)
      else Inr (d\<lparr> key_rows :=
                  map (\<lambda>k. if key_id k = keyId then apply_key_set s k else k) (key_rows d) \<rparr>))"

text \<open>\<^verbatim>\<open>update(translation).set(s).where(eq(translation.id, translationId))\<close>\<close>

definition update_translation :: "env \<Rightarrow> string \<Rightarrow> translation_set \<Rightarrow> db \<Rightarrow> error + db" where
  "update_translation e translationId s d =
     (if fails e Update_translation then Inl (DbError Update_translation)
      else if (case set_version s of None \<Rightarrow> False | Some v \<Rightarrow> \<not> int4 v)
        then Inl (OutOfRange (the (set_version s)))
      else Inr (d\<lparr> translation_rows :=
                  map (\<lambda>t. if tr_id t = translationId then apply_translation_set s t else t)
                    (translation_rows d) \<rparr>))"

section \<open>Commit: \<^verbatim>\<open>executeImport\<close>\<close>

text \<open>
  The state of a run is the database and the number of calls of \<^verbatim>\<open>crypto.randomUUID()\<close>
  made so far. A step returns the new state or throws; a loop stops at the first throw.
\<close>

fun run_all :: "('a \<Rightarrow> 's \<Rightarrow> error + 's) \<Rightarrow> 'a list \<Rightarrow> 's \<Rightarrow> error + 's" where
  "run_all f [] s = Inr s"
| "run_all f (x # xs) s = (case f x s of Inl err \<Rightarrow> Inl err | Inr s' \<Rightarrow> run_all f xs s')"

definition create_key_event :: "string \<Rightarrow> string \<Rightarrow> string \<Rightarrow> keyData \<Rightarrow> event" where
  "create_key_event eid userId serviceId keyData =
     \<lparr> ev_id = eid, ev_actor = userId, ev_action = ''create'', ev_entityType = ''l10n_key'',
       ev_entityId = kd_id keyData, ev_before = None,
       ev_after = Some (JObj ([(''keyName'', JStr (kd_keyName keyData)),
                               (''serviceId'', JStr serviceId)]
                              @ undef_field ''namespaceId'' (kd_namespaceId keyData)
                              @ [(''tags'', JArr (map JStr (kd_tags keyData))),
                                 (''status'', JStr (status_str (kd_status keyData)))])) \<rparr>"

definition create_translation_event :: "string \<Rightarrow> string \<Rightarrow> string \<Rightarrow> keyData \<Rightarrow> translationData \<Rightarrow> event" where
  "create_translation_event eid userId translationId keyData t =
     \<lparr> ev_id = eid, ev_actor = userId, ev_action = ''create'', ev_entityType = ''translation'',
       ev_entityId = translationId, ev_before = None,
       ev_after = Some (JObj [(''keyId'', JStr (kd_id keyData)),
                              (''locale'', JStr (locale_str (td_locale t))),
                              (''value'', JStr (td_value t)),
                              (''status'', JStr (status_str (td_status t))),
                              (''version'', JNum (td_version t))]) \<rparr>"

definition update_key_event :: "string \<Rightarrow> string \<Rightarrow> l10nKey \<Rightarrow> keyData \<Rightarrow> event" where
  "update_key_event eid userId existingKey keyData =
     \<lparr> ev_id = eid, ev_actor = userId, ev_action = ''update'', ev_entityType = ''l10n_key'',
       ev_entityId = kd_id keyData, ev_before = Some (existing_key_json existingKey),
       ev_after = Some (incoming_key_json keyData) \<rparr>"

definition update_translation_event :: "string \<Rightarrow> string \<Rightarrow> translation \<Rightarrow> translationData \<Rightarrow> event" where
  "update_translation_event eid userId existingTranslation t =
     \<lparr> ev_id = eid, ev_actor = userId, ev_action = ''update'', ev_entityType = ''translation'',
       ev_entityId = tr_id existingTranslation,
       ev_before = Some (existing_translation_json existingTranslation),
       ev_after = Some (incoming_translation_json t) \<rparr>"

text \<open>Insert a translation of an incoming key and its creation event.\<close>

definition createTranslation ::
  "env \<Rightarrow> string \<Rightarrow> keyData \<Rightarrow> translationData \<Rightarrow> db \<times> nat \<Rightarrow> error + db \<times> nat" where
  "createTranslation e userId keyData t s =
     (case s of (d, n) \<Rightarrow>
        let translationId = uuid e n in
        (case insert_translation e
                \<lparr> tr_id = translationId, tr_keyId = kd_id keyData, tr_locale = td_locale t,
                  tr_value = Some (td_value t), tr_status = td_status t,
                  version = td_version t \<rparr> d of
           Inl err \<Rightarrow> Inl err
         | Inr d1 \<Rightarrow>
             (case insert_event e
                     (create_translation_event (uuid e (n + 1)) userId translationId keyData t) d1 of
                Inl err \<Rightarrow> Inl err
              | Inr d2 \<Rightarrow> Inr (d2, n + 2))))"

text \<open>The body of the loop over the translations of an incoming key that exists.\<close>

definition importTranslation ::
  "env \<Rightarrow> string \<Rightarrow> keyData \<Rightarrow> (locale_code \<Rightarrow> translation option) \<Rightarrow> translationData
   \<Rightarrow> db \<times> nat \<Rightarrow> error + db \<times> nat" where
  "importTranslation e userId keyData etm t s =
     (case etm (td_locale t) of
        None \<Rightarrow> createTranslation e userId keyData t s
      | Some existingTranslation \<Rightarrow>
          if translationChanged existingTranslation t
          then (case s of (d, n) \<Rightarrow>
                  (case update_translation e (tr_id existingTranslation)
                          \<lparr> set_locale = None, set_value = Some (td_value t),
                            set_status = Some (td_status t),
                            set_version = Some (td_version t) \<rparr> d of
                     Inl err \<Rightarrow> Inl err
                   | Inr d1 \<Rightarrow>
                       (case insert_event e
                               (update_translation_event (uuid e n) userId existingTranslation t) d1 of
                          Inl err \<Rightarrow> Inl err
                        | Inr d2 \<Rightarrow> Inr (d2, n + 1))))
          else Inr s)"

text \<open>The key-level part of an iteration for an incoming key that exists.\<close>

definition importExistingKey ::
  "env \<Rightarrow> string \<Rightarrow> l10nKey \<Rightarrow> keyData \<Rightarrow> db \<times> nat \<Rightarrow> error + db \<times> nat" where
  "importExistingKey e userId existingKey keyData s =
     (if keyChanged existingKey keyData
      then (case s of (d, n) \<Rightarrow>
              (case update_key e (kd_id keyData)
                      \<lparr> set_keyName = Some (kd_keyName keyData),
                        set_namespaceId = kd_namespaceId keyData,
                        set_tags = Some (kd_tags keyData),
                        set_key_status = Some (kd_status keyData) \<rparr> d of
                 Inl err \<Rightarrow> Inl err
               | Inr d1 \<Rightarrow>
                   (case insert_event e (update_key_event (uuid e n) userId existingKey keyData) d1 of
                      Inl err \<Rightarrow> Inl err
                    | Inr d2 \<Rightarrow> Inr (d2, n + 1))))
      else Inr s)"

text \<open>The body of the loop over the incoming keys.\<close>

definition importKey ::
  "env \<Rightarrow> string \<Rightarrow> string \<Rightarrow> (string \<Rightarrow> (l10nKey \<times> translation list) option) \<Rightarrow> keyData
   \<Rightarrow> db \<times> nat \<Rightarrow> error + db \<times> nat" where
  "importKey e serviceId userId ekm keyData s =
     (case ekm (kd_id keyData) of
        None \<Rightarrow>
          (case s of (d, n) \<Rightarrow>
             (case insert_key e
                     \<lparr> key_id = kd_id keyData, key_serviceId = Some serviceId,
                       key_namespaceId = kd_namespaceId keyData, keyName = kd_keyName keyData,
                       tags = kd_tags keyData, key_status = kd_status keyData \<rparr> d of
                Inl err \<Rightarrow> Inl err
              | Inr d1 \<Rightarrow>
                  (case insert_event e (create_key_event (uuid e n) userId serviceId keyData) d1 of
                     Inl err \<Rightarrow> Inl err
                   | Inr d2 \<Rightarrow>
                       run_all (createTranslation e userId keyData) (kd_translations keyData)
                         (d2, n + 1))))
      | Some (existingKey, existingTranslations) \<Rightarrow>
          (case importExistingKey e userId existingKey keyData s of
             Inl err \<Rightarrow> Inl err
           | Inr s1 \<Rightarrow>
               run_all (importTranslation e userId keyData
                          (existingTranslationMap existingTranslations))
                 (kd_translations keyData) s1))"

text \<open>\<^verbatim>\<open>db.transaction(async (tx) => ...)\<close>: the result is the state after the last step, or
  the exception that rolled the transaction back; the caller then still has the state
  it started from.\<close>

definition executeImport ::
  "env \<Rightarrow> string \<Rightarrow> keyData list \<Rightarrow> string \<Rightarrow> db \<times> nat \<Rightarrow> error + db \<times> nat" where
  "executeImport e serviceId importKeys userId s =
     (case find_service_keys e (fst s) serviceId of
        Inl err \<Rightarrow> Inl err
      | Inr existingKeys \<Rightarrow>
          run_all (importKey e serviceId userId (existingKeyMap existingKeys)) importKeys s)"

section \<open>The import route (\<^verbatim>\<open>POST /api/import\<close>)\<close>

datatype response =
  Unauthorized_401
  | BadRequest_400
  | NotFound_404
  | Forbidden_403
  | DryRun_200 DiffReport
  | Imported_201 nat nat
  | Updated_200
  | Failed_500

text \<open>\<^verbatim>\<open>db.query.service.findFirst({where: eq(serviceTbl.code, serviceCode)})\<close>\<close>

definition find_service_by_code :: "env \<Rightarrow> db \<Rightarrow> string \<Rightarrow> error + service option" where
  "find_service_by_code e d serviceCode =
     (if fails e Select_service then Inl (DbError Select_service)
      else Inr (find (\<lambda>s. svc_code s = serviceCode) (service_rows d)))"

definition translationsCount :: "keyData list \<Rightarrow> nat" where
  "translationsCount importKeys = foldl (\<lambda>sum key. sum + length (kd_translations key)) 0 importKeys"

definition import_event :: "string \<Rightarrow> string \<Rightarrow> string \<Rightarrow> string \<Rightarrow> keyData list \<Rightarrow> event" where
  "import_event eid userId serviceId serviceCode importKeys =
     \<lparr> ev_id = eid, ev_actor = userId, ev_action = ''import'', ev_entityType = ''service'',
       ev_entityId = serviceId, ev_before = None,
       ev_after = Some (JObj [(''service'', JStr serviceCode),
                              (''keysCount'', JNum (int (length importKeys))),
                              (''translationsCount'', JNum (int (translationsCount importKeys)))]) \<rparr>"

text \<open>
  The handler takes the identity that \<^verbatim>\<open>getAuthenticatedUser\<close> found (\<open>None\<close> when there is
  none) and the body that \<^verbatim>\<open>request.json().catch(() => ({}))\<close> gave (\<open>JObj []\<close> when the
  request holds no JSON). It returns the response, or the exception that escaped the
  handler, and the state it leaves behind.
\<close>

definition importPOST ::
  "env \<Rightarrow> IdentityUser option \<Rightarrow> json \<Rightarrow> db \<times> nat
   \<Rightarrow> (error + response) \<times> (db \<times> nat)" where
  "importPOST e user body s =
     (case user of
        None \<Rightarrow> (Inr Unauthorized_401, s)
      | Some u \<Rightarrow>
     (case importPayloadSchema body of
        None \<Rightarrow> (Inr BadRequest_400, s)
      | Some payload \<Rightarrow>
     (case find_service_by_code e (fst s) (ip_service payload) of
        Inl err \<Rightarrow> (Inl err, s)
      | Inr None \<Rightarrow> (Inr NotFound_404, s)
      | Inr (Some svc) \<Rightarrow>
     (case validateServiceAccess e (fst s) user (svc_id svc) WRITE of
        Inl err \<Rightarrow> (Inl err, s)
      | Inr False \<Rightarrow> (Inr Forbidden_403, s)
      | Inr True \<Rightarrow>
          if ip_dryRun payload
          then (case generateDiffReport e (fst s) (svc_id svc) (ip_keys payload) of
                  Inl err \<Rightarrow> (Inr Failed_500, s)
                | Inr diffReport \<Rightarrow> (Inr (DryRun_200 diffReport), s))
          else (case executeImport e (svc_id svc) (ip_keys payload) (sub u) s of
                  Inl err \<Rightarrow> (Inr Failed_500, s)
                | Inr (d1, n1) \<Rightarrow>
                    (case insert_event e
                            (import_event (uuid e n1) (sub u) (svc_id svc) (ip_service payload)
                               (ip_keys payload)) d1 of
                       Inl err \<Rightarrow> (Inr Failed_500, (d1, n1 + 1))
                     | Inr d2 \<Rightarrow>
                         (Inr (Imported_201 (length (ip_keys payload))
                                 (translationsCount (ip_keys payload))),
                          (d2, n1 + 1))))))))"

section \<open>The translation update route (\<^verbatim>\<open>PUT /api/translations/$id\<close>) and \<^verbatim>\<open>logEvent\<close>\<close>

record updateBody =
  ub_locale :: locale_code
  ub_value :: "string option"
  ub_status :: "status option"

record EventLogData =
  eld_actor :: string
  eld_action :: string
  eld_entityType :: string
  eld_entityId :: string
  eld_before :: "json option"
  eld_after :: "json option"

text \<open>\<^verbatim>\<open>logEvent(eventData, tx = db)\<close>: one insert into \<^verbatim>\<open>event\<close> with a fresh id; it throws when
  the insert throws.\<close>

definition logEvent :: "env \<Rightarrow> EventLogData \<Rightarrow> db \<times> nat \<Rightarrow> error + db \<times> nat" where
  "logEvent e eventData s =
     (case s of (d, n) \<Rightarrow>
        (case insert_event e
                \<lparr> ev_id = uuid e n, ev_actor = eld_actor eventData,
                  ev_action = eld_action eventData, ev_entityType = eld_entityType eventData,
                  ev_entityId = eld_entityId eventData, ev_before = eld_before eventData,
                  ev_after = eld_after eventData \<rparr> d of
           Inl err \<Rightarrow> Inl err
         | Inr d1 \<Rightarrow> Inr (d1, n + 1)))"

text \<open>\<^verbatim>\<open>db.query.translation.findFirst({where: eq(translation.id, id), with: {key: ...}})\<close>\<close>

definition find_translation_with_key ::
  "env \<Rightarrow> db \<Rightarrow> string \<Rightarrow> error + (translation \<times> l10nKey option) option" where
  "find_translation_with_key e d translationId =
     (if fails e Select_translation then Inl (DbError Select_translation)
      else Inr (case find (\<lambda>t. tr_id t = translationId) (translation_rows d) of
                  None \<Rightarrow> None
                | Some t \<Rightarrow> Some (t, find (\<lambda>k. key_id k = tr_keyId t) (key_rows d))))"

definition translation_state_json :: "translation \<Rightarrow> (string \<times> json) list" where
  "translation_state_json t =
     [(''id'', JStr (tr_id t)), (''keyId'', JStr (tr_keyId t)),
      (''locale'', JStr (locale_str (tr_locale t))), (''value'', null_str (tr_value t)),
      (''status'', JStr (status_str (tr_status t))), (''version'', JNum (version t))]"

text \<open>The object \<^verbatim>\<open>updateData\<close>: the fields the body gives, and always the next version
  (and \<^verbatim>\<open>updatedAt\<close>, a column left out of the model).\<close>

definition updateData :: "updateBody \<Rightarrow> translation \<Rightarrow> translation_set" where
  "updateData body existingTranslation =
     \<lparr> set_locale = Some (ub_locale body), set_value = ub_value body,
       set_status = ub_status body, set_version = Some (version existingTranslation + 1) \<rparr>"

text \<open>The second half of the handler, after the checks: the update, then the audit event,
  then the response. Neither statement is inside a transaction or a \<^verbatim>\<open>try\<close>. The row
  \<open>existingTranslation\<close> is the one the handler read before the checks; the state is the
  one the update statement finds, which another request may have written to since.\<close>

definition putWrite ::
  "env \<Rightarrow> IdentityUser \<Rightarrow> string \<Rightarrow> updateBody \<Rightarrow> translation \<Rightarrow> db \<times> nat
   \<Rightarrow> (error + response) \<times> (db \<times> nat)" where
  "putWrite e u translationId body existingTranslation s =
     (let beforeState = translation_state_json existingTranslation;
          afterState =
            translation_state_json
              (apply_translation_set (updateData body existingTranslation) existingTranslation)
            @ [(''updatedAt'', JStr (now e))]
      in (case update_translation e translationId (updateData body existingTranslation) (fst s) of
            Inl err \<Rightarrow> (Inl err, s)
          | Inr d1 \<Rightarrow>
              (case logEvent e
                      \<lparr> eld_actor = sub u, eld_action = ''update'',
                        eld_entityType = ''translation'', eld_entityId = translationId,
                        eld_before = Some (JObj beforeState),
                        eld_after = Some (JObj afterState) \<rparr> (d1, snd s) of
                 Inl err \<Rightarrow> (Inl err, (d1, snd s + 1))
               | Inr s2 \<Rightarrow> (Inr Updated_200, s2))))"

text \<open>
  The handler takes the identity that \<^verbatim>\<open>getAuthenticatedUser\<close> found, the \<^verbatim>\<open>id\<close> of the
  path and the body as \<^verbatim>\<open>updateTranslationSchema.safeParse\<close> returned it. A translation
  whose key row is missing makes \<^verbatim>\<open>existingTranslation.key.serviceId\<close> a \<^verbatim>\<open>TypeError\<close>.
  This is the handler run with no other request between its read and its write.
\<close>

definition translationPUT ::
  "env \<Rightarrow> IdentityUser option \<Rightarrow> string \<Rightarrow> updateBody option \<Rightarrow> db \<times> nat
   \<Rightarrow> (error + response) \<times> (db \<times> nat)" where
  "translationPUT e user translationId parsed s =
     (case user of
        None \<Rightarrow> (Inr Unauthorized_401, s)
      | Some u \<Rightarrow>
     if translationId = [] then (Inr BadRequest_400, s) else
     (case parsed of
        None \<Rightarrow> (Inr BadRequest_400, s)
      | Some body \<Rightarrow>
     (case find_translation_with_key e (fst s) translationId of
        Inl err \<Rightarrow> (Inl err, s)
      | Inr None \<Rightarrow> (Inr NotFound_404, s)
      | Inr (Some (existingTranslation, None)) \<Rightarrow> (Inl TypeError, s)
      | Inr (Some (existingTranslation, Some key)) \<Rightarrow>
     (case (if \<not> falsy (key_serviceId key)
            then validateServiceAccess e (fst s) user (the (key_serviceId key)) WRITE
            else Inr (hasRole user ''Admin'' \<or> hasRole user ''Editor'')) of
        Inl err \<Rightarrow> (Inl err, s)
      | Inr False \<Rightarrow> (Inr Forbidden_403, s)
      | Inr True \<Rightarrow> putWrite e u translationId body existingTranslation s))))"

section \<open>Export: \<^verbatim>\<open>generateExportData\<close>\<close>

record exportOptions =
  eo_locales :: "locale_code list option"
  eo_status :: "status option"
  eo_includeEmpty :: bool

text \<open>\<^verbatim>\<open>ExportData\<close>: the entries of \<^verbatim>\<open>data.keys\<close> have the shape of the keys of the import
  payload ("matches import schema for round-trip compatibility"), their \<^verbatim>\<open>locale\<close> and
  \<^verbatim>\<open>status\<close> strings being those of the enumerated columns they are read from.\<close>

record ExportData =
  ex_service :: string
  ex_locales :: "locale_code list"
  ex_exportedAt :: string
  ex_keys :: "keyData list"

text \<open>The options of a request that gives no \<^verbatim>\<open>locales\<close>, no \<^verbatim>\<open>status\<close> and no
  \<^verbatim>\<open>includeEmpty\<close> (\<^verbatim>\<open>exportQuerySchema\<close> defaults it to false).\<close>

definition default_options :: exportOptions where
  "default_options = \<lparr> eo_locales = None, eo_status = None, eo_includeEmpty = False \<rparr>"

text \<open>The conditions on the key (\<^verbatim>\<open>keyConds\<close>) and on the joined translation
  (\<^verbatim>\<open>translationConds\<close>); a condition on a translation column is not true on the null row
  of a left join.\<close>

definition keyConds :: "string \<Rightarrow> exportOptions \<Rightarrow> l10nKey \<Rightarrow> bool" where
  "keyConds serviceId opts k =
     (key_serviceId k = Some serviceId
      \<and> (case eo_status opts of None \<Rightarrow> True | Some st \<Rightarrow> key_status k = st))"

definition translationConds :: "exportOptions \<Rightarrow> translation option \<Rightarrow> bool" where
  "translationConds opts row =
     ((case eo_locales opts of
         None \<Rightarrow> True
       | Some [] \<Rightarrow> True
       | Some ls \<Rightarrow> (case row of None \<Rightarrow> False | Some t \<Rightarrow> tr_locale t \<in> set ls))
      \<and> (case eo_status opts of
            None \<Rightarrow> True
          | Some st \<Rightarrow> (case row of None \<Rightarrow> False | Some t \<Rightarrow> tr_status t = st)))"

text \<open>The joined rows: a left join when \<^verbatim>\<open>includeEmpty\<close> is set, an inner join otherwise.\<close>

definition export_rows ::
  "env \<Rightarrow> db \<Rightarrow> string \<Rightarrow> exportOptions \<Rightarrow> error + (l10nKey \<times> translation option) list" where
  "export_rows e d serviceId opts =
     (if fails e Select_key then Inl (DbError Select_key)
      else Inr (filter (\<lambda>(k, row). keyConds serviceId opts k \<and> translationConds opts row)
             (concat (map (\<lambda>k.
                (case filter (\<lambda>t. tr_keyId t = key_id k) (translation_rows d) of
                   [] \<Rightarrow> (if eo_includeEmpty opts then [(k, None)] else [])
                 | ts \<Rightarrow> map (\<lambda>t. (k, Some t)) ts))
               (key_rows d)))))"

text \<open>\<^verbatim>\<open>key.namespaceId || undefined\<close> and \<^verbatim>\<open>trans.value || ""\<close>\<close>

definition or_undefined :: "string option \<Rightarrow> string option" where
  "or_undefined v = (if falsy v then None else v)"

definition or_empty :: "string option \<Rightarrow> string" where
  "or_empty v = (case v of None \<Rightarrow> [] | Some s \<Rightarrow> s)"

definition exported_key :: "l10nKey \<Rightarrow> keyData" where
  "exported_key key =
     \<lparr> kd_id = key_id key, kd_keyName = keyName key,
       kd_namespaceId = or_undefined (key_namespaceId key), kd_tags = tags key,
       kd_status = key_status key, kd_translations = [] \<rparr>"

definition exported_translation :: "translation \<Rightarrow> translationData" where
  "exported_translation tr =
     \<lparr> td_locale = tr_locale tr, td_value = or_empty (tr_value tr),
       td_status = tr_status tr, td_version = version tr \<rparr>"

text \<open>The grouping loop: \<open>keyMap\<close> is the list of the entries of the \<^verbatim>\<open>Map\<close> in insertion
  order.\<close>

definition group_row :: "keyData list \<Rightarrow> l10nKey \<times> translation option \<Rightarrow> keyData list" where
  "group_row keyMap row =
     (case row of (key, tr) \<Rightarrow>
        let keyMap1 = (if key_id key \<in> set (map kd_id keyMap) then keyMap
                       else keyMap @ [exported_key key])
        in (case tr of
              None \<Rightarrow> keyMap1
            | Some t \<Rightarrow>
                map (\<lambda>entry. if kd_id entry = key_id key
                       then entry\<lparr> kd_translations := kd_translations entry @ [exported_translation t] \<rparr>
                       else entry) keyMap1))"

text \<open>\<^verbatim>\<open>Array.prototype.sort\<close> with a comparison function: a stable sort.\<close>

fun insort_by :: "('a \<Rightarrow> 'a \<Rightarrow> int) \<Rightarrow> 'a \<Rightarrow> 'a list \<Rightarrow> 'a list" where
  "insort_by cmp x [] = [x]"
| "insort_by cmp x (y # ys) = (if cmp x y \<le> 0 then x # y # ys else y # insort_by cmp x ys)"

definition sort_by :: "('a \<Rightarrow> 'a \<Rightarrow> int) \<Rightarrow> 'a list \<Rightarrow> 'a list" where
  "sort_by cmp xs = foldr (insort_by cmp) xs []"

definition generateExportData ::
  "env \<Rightarrow> db \<Rightarrow> string \<Rightarrow> string \<Rightarrow> exportOptions \<Rightarrow> error + ExportData" where
  "generateExportData e d serviceId serviceCode opts =
     (case export_rows e d serviceId opts of
        Inl err \<Rightarrow> Inl err
      | Inr keysWithTranslations \<Rightarrow>
          (let keys = foldl group_row [] keysWithTranslations;
               sorted = sort_by (\<lambda>a b. localeCompare e (kd_keyName a) (kd_keyName b)) keys;
               sorted_inner =
                 map (\<lambda>key. key\<lparr> kd_translations :=
                        sort_by (\<lambda>a b. localeCompare e (locale_str (td_locale a))
                                          (locale_str (td_locale b)))
                          (kd_translations key) \<rparr>) sorted
           in Inr \<lparr> ex_service = serviceCode,
                    ex_locales = (case eo_locales opts of None \<Rightarrow> [] | Some ls \<Rightarrow> ls),
                    ex_exportedAt = now e, ex_keys = sorted_inner \<rparr>))"

text \<open>The document the export route answers with, \<^verbatim>\<open>JSON.stringify(exportData, null, 2)\<close>, as
  the JSON value it denotes; a \<^verbatim>\<open>namespaceId\<close> that is \<^verbatim>\<open>undefined\<close> is left out.\<close>

definition export_key_json :: "keyData \<Rightarrow> json" where
  "export_key_json key =
     JObj ([(''id'', JStr (kd_id key)), (''keyName'', JStr (kd_keyName key))]
           @ undef_field ''namespaceId'' (kd_namespaceId key)
           @ [(''tags'', JArr (map JStr (kd_tags key))),
              (''status'', JStr (status_str (kd_status key))),
              (''translations'', JArr (map incoming_translation_json (kd_translations key)))])"

definition export_json :: "ExportData \<Rightarrow> (string \<times> json) list" where
  "export_json exportData =
     [(''service'', JStr (ex_service exportData)),
      (''locales'', JArr (map (\<lambda>l. JStr (locale_str l)) (ex_locales exportData))),
      (''exportedAt'', JStr (ex_exportedAt exportData)),
      (''data'', JObj [(''keys'', JArr (map export_key_json (ex_keys exportData)))])]"

text \<open>The exported document sent back to the import route as a dry run: the same object
  with \<^verbatim>\<open>dryRun: true\<close>.\<close>

definition dry_run_body :: "ExportData \<Rightarrow> json" where
  "dry_run_body exportData = JObj ((''dryRun'', JBool True) # export_json exportData)"

definition export_then_dry_run ::
  "env \<Rightarrow> IdentityUser option \<Rightarrow> string \<Rightarrow> string \<Rightarrow> db \<times> nat
   \<Rightarrow> error + (error + response) \<times> (db \<times> nat)" where
  "export_then_dry_run e user serviceId serviceCode s =
     (case generateExportData e (fst s) serviceId serviceCode default_options of
        Inl err \<Rightarrow> Inl err
      | Inr exportData \<Rightarrow> Inr (importPOST e user (dry_run_body exportData) s))"

text \<open>Export a service with the default options and feed the keys of the payload to
  \<^verbatim>\<open>generateDiffReport\<close>.\<close>

definition export_then_plan :: "env \<Rightarrow> db \<Rightarrow> string \<Rightarrow> string \<Rightarrow> error + DiffReport" where
  "export_then_plan e d serviceId serviceCode =
     (case generateExportData e d serviceId serviceCode default_options of
        Inl err \<Rightarrow> Inl err
      | Inr exportData \<Rightarrow> generateDiffReport e d serviceId (ex_keys exportData))"

section \<open>Regular expressions (\<^verbatim>\<open>PII_PATTERNS\<close> of \<^verbatim>\<open>pii-redaction.ts\<close>)\<close>

text \<open>
  A JavaScript string is a sequence of 16-bit code units, and a pattern without the \<^verbatim>\<open>u\<close>
  flag reads it unit by unit. A string of the redaction module is the list of its code
  units, each an integer (from 0 to 65535 in a string of the program); \<open>str\<close> writes such a
  string from its Latin-1 characters.
\<close>

type_synonym jsstring = "int list"

definition str :: "string \<Rightarrow> jsstring" where
  "str s = map of_char s"

text \<open>
  The patterns use character classes, sequence, alternation, the greedy \<^verbatim>\<open>?\<close>, greedy
  repetition of a class (\<^verbatim>\<open>+\<close>, \<^verbatim>\<open>{n,}\<close>), repetition of a group a fixed number of times, and
  \<^verbatim>\<open>\b\<close>; none has a back reference or a look-around, and none has the \<^verbatim>\<open>i\<close> flag.
\<close>

datatype re =
  Eps
  | Cls "int \<Rightarrow> bool"
  | Seq re re
  | Alt re re
  | Opt re
  | Many "int \<Rightarrow> bool" nat
  | WordB

text \<open>\<^verbatim>\<open>[0-9]\<close> and \<^verbatim>\<open>\d\<close>, \<^verbatim>\<open>[A-Za-z]\<close>, \<^verbatim>\<open>[A-Za-z0-9]\<close>.\<close>

definition is_digit :: "int \<Rightarrow> bool" where
  "is_digit u = (48 \<le> u \<and> u \<le> 57)"

definition is_alpha :: "int \<Rightarrow> bool" where
  "is_alpha u = ((65 \<le> u \<and> u \<le> 90) \<or> (97 \<le> u \<and> u \<le> 122))"

definition is_alnum :: "int \<Rightarrow> bool" where
  "is_alnum u = (is_alpha u \<or> is_digit u)"

text \<open>\<^verbatim>\<open>\w\<close>, the word characters of \<^verbatim>\<open>\b\<close>: letters, digits and the underscore.\<close>

definition is_word :: "int \<Rightarrow> bool" where
  "is_word u = (is_alnum u \<or> u = 95)"

text \<open>\<^verbatim>\<open>\s\<close>: the white space and the line terminators of the language. Tab, line feed,
  vertical tab, form feed, carriage return, space, no-break space, U+1680, U+2000 to
  U+200A, U+2028, U+2029, U+202F, U+205F, U+3000 and U+FEFF.\<close>

definition is_space :: "int \<Rightarrow> bool" where
  "is_space u =
     ((9 \<le> u \<and> u \<le> 13) \<or> u = 32 \<or> u = 160 \<or> u = 5760 \<or> (8192 \<le> u \<and> u \<le> 8202)
      \<or> u = 8232 \<or> u = 8233 \<or> u = 8239 \<or> u = 8287 \<or> u = 12288 \<or> u = 65279)"

definition is_char :: "char \<Rightarrow> int \<Rightarrow> bool" where
  "is_char c u = (u = of_char c)"

definition one_of :: "string \<Rightarrow> int \<Rightarrow> bool" where
  "one_of cs u = (u \<in> set (map of_char cs))"

text \<open>A match is searched depth first: \<open>ends r p s\<close> lists, in the order in which the
  backtracking matcher tries them, the states in which a match of \<open>r\<close> can end when it
  starts with \<open>s\<close> still to read and \<open>p\<close> the code unit before it (\<open>None\<close> at the start of the
  string). A state is the last unit before the end and the rest of the string. The match
  found at a position is the first of the list.\<close>

fun run :: "(int \<Rightarrow> bool) \<Rightarrow> int option \<Rightarrow> jsstring \<Rightarrow> (int option \<times> jsstring) list" where
  "run f p [] = [(p, [])]"
| "run f p (c # cs) = (if f c then run f (Some c) cs @ [(p, c # cs)] else [(p, c # cs)])"

definition at_boundary :: "int option \<Rightarrow> jsstring \<Rightarrow> bool" where
  "at_boundary p s =
     ((case p of None \<Rightarrow> False | Some u \<Rightarrow> is_word u)
      \<noteq> (case s of [] \<Rightarrow> False | c # _ \<Rightarrow> is_word c))"

fun ends :: "re \<Rightarrow> int option \<Rightarrow> jsstring \<Rightarrow> (int option \<times> jsstring) list" where
  "ends Eps p s = [(p, s)]"
| "ends (Cls f) p s = (case s of [] \<Rightarrow> [] | c # cs \<Rightarrow> if f c then [(Some c, cs)] else [])"
| "ends (Seq a b) p s = concat (map (\<lambda>st. ends b (fst st) (snd st)) (ends a p s))"
| "ends (Alt a b) p s = ends a p s @ ends b p s"
| "ends (Opt a) p s = ends a p s @ [(p, s)]"
| "ends (Many f n) p s = (let l = run f p s in take (length l - n) l)"
| "ends WordB p s = (if at_boundary p s then [(p, s)] else [])"

text \<open>The search for a match from a position on, as \<^verbatim>\<open>RegExpBuiltinExec\<close> does it: the
  position itself is tried first, then the next one, up to the end of the string. The
  result is the number of units skipped before the match and the state in which the
  match ends.\<close>

fun find_match :: "re \<Rightarrow> int option \<Rightarrow> jsstring \<Rightarrow> (nat \<times> int option \<times> jsstring) option" where
  "find_match r p [] = (case ends r p [] of [] \<Rightarrow> None | st # _ \<Rightarrow> Some (0, st))"
| "find_match r p (c # cs) =
     (case ends r p (c # cs) of
        st # _ \<Rightarrow> Some (0, st)
      | [] \<Rightarrow> (case find_match r (Some c) cs of
                 None \<Rightarrow> None
               | Some (k, st) \<Rightarrow> Some (Suc k, st)))"

subsection \<open>\<^verbatim>\<open>RegExp\<close> objects\<close>

text \<open>
  A \<^verbatim>\<open>RegExp\<close> object has a pattern, flags, and the writable property \<^verbatim>\<open>lastIndex\<close>. Of the
  flags only \<^verbatim>\<open>g\<close> is modelled, the one the seven patterns carry. The seven objects are
  created once, when the module is loaded, and are shared by every call of
  \<^verbatim>\<open>redactStringValue\<close> and of \<^verbatim>\<open>validateRedaction\<close>: their \<^verbatim>\<open>lastIndex\<close> is state that outlives
  a call.
\<close>

record RegExp =
  rx_source :: re
  rx_global :: bool
  lastIndex :: nat

text \<open>The code unit before index \<open>i\<close> of a string.\<close>

definition unit_before :: "jsstring \<Rightarrow> nat \<Rightarrow> int option" where
  "unit_before s i = (if i = 0 then None else Some (s ! (i - 1)))"

text \<open>\<^verbatim>\<open>pattern.test(s)\<close>. A global pattern is matched from its \<^verbatim>\<open>lastIndex\<close> on; when that is
  beyond the end of the string, or no match is found from there, \<^verbatim>\<open>lastIndex\<close> becomes 0
  and the answer is false; when a match is found, \<^verbatim>\<open>lastIndex\<close> becomes the index at which
  the match ends. A pattern that is not global is matched from index 0 and its
  \<^verbatim>\<open>lastIndex\<close> is left alone.\<close>

definition regexp_test :: "RegExp \<Rightarrow> jsstring \<Rightarrow> bool \<times> RegExp" where
  "regexp_test rx s =
     (if rx_global rx
      then (if length s < lastIndex rx then (False, rx\<lparr> lastIndex := 0 \<rparr>)
            else (case find_match (rx_source rx) (unit_before s (lastIndex rx))
                         (drop (lastIndex rx) s) of
                    None \<Rightarrow> (False, rx\<lparr> lastIndex := 0 \<rparr>)
                  | Some (k, st) \<Rightarrow> (True, rx\<lparr> lastIndex := length s - length (snd st) \<rparr>)))
      else (find_match (rx_source rx) None s \<noteq> None, rx))"

text \<open>\<^verbatim>\<open>s.replace(pattern, replacement)\<close> for a replacement with no \<^verbatim>\<open>$\<close>. With a global
  pattern, \<^verbatim>\<open>lastIndex\<close> is first set to 0; every match, found from left to right, each
  search starting where the last match ended (one unit further after an empty match), is
  replaced; the search that finds nothing leaves \<^verbatim>\<open>lastIndex\<close> at 0. With a pattern that
  is not global the first match from index 0 is replaced.\<close>

function replace_all :: "re \<Rightarrow> jsstring \<Rightarrow> int option \<Rightarrow> jsstring \<Rightarrow> jsstring" where
  "replace_all r replacement p s =
     (case ends r p s of
        [] \<Rightarrow> (case s of [] \<Rightarrow> [] | c # cs \<Rightarrow> c # replace_all r replacement (Some c) cs)
      | st # _ \<Rightarrow>
          if length (snd st) < length s
          then replacement @ replace_all r replacement (fst st) (snd st)
          else replacement @ (case s of [] \<Rightarrow> []
                              | c # cs \<Rightarrow> c # replace_all r replacement (Some c) cs))"
  by pat_completeness auto
termination
  by (relation "measure (\<lambda>(r, replacement, p, s). length s)") auto

definition replace_first :: "re \<Rightarrow> jsstring \<Rightarrow> jsstring \<Rightarrow> jsstring" where
  "replace_first r replacement s =
     (case find_match r None s of
        None \<Rightarrow> s
      | Some (k, st) \<Rightarrow> take k s @ replacement @ snd st)"

definition string_replace :: "jsstring \<Rightarrow> RegExp \<Rightarrow> jsstring \<Rightarrow> jsstring \<times> RegExp" where
  "string_replace s rx replacement =
     (if rx_global rx
      then (replace_all (rx_source rx) replacement None s, rx\<lparr> lastIndex := 0 \<rparr>)
      else (replace_first (rx_source rx) replacement s, rx))"

subsection \<open>The seven patterns\<close>

fun seq :: "re list \<Rightarrow> re" where
  "seq [] = Eps"
| "seq [r] = r"
| "seq (r # rs) = Seq r (seq rs)"

definition times :: "nat \<Rightarrow> re \<Rightarrow> re" where
  "times n r = seq (replicate n r)"

definition lit :: "char \<Rightarrow> re" where
  "lit c = Cls (is_char c)"

definition digit :: re where
  "digit = Cls is_digit"

text \<open>\<^verbatim>\<open>[-.\s]\<close>\<close>

definition dash_dot_space :: "int \<Rightarrow> bool" where
  "dash_dot_space u = (one_of ''-.'' u \<or> is_space u)"

text \<open>\<^verbatim>\<open>/\b[A-Za-z0-9._%+-]+@[A-Za-z0-9.-]+\.[A-Z|a-z]{2,}\b/g\<close>\<close>

definition email_re :: re where
  "email_re =
     seq [WordB,
          Many (\<lambda>c. is_alnum c \<or> one_of ''._%+-'' c) 1,
          lit CHR ''@'',
          Many (\<lambda>c. is_alnum c \<or> one_of ''.-'' c) 1,
          lit CHR ''.'',
          Many (\<lambda>c. is_alpha c \<or> is_char CHR ''|'' c) 2,
          WordB]"

text \<open>\<^verbatim>\<open>/(\+?1[-.\s]?)?\(?([0-9]{3})\)?[-.\s]?([0-9]{3})[-.\s]?([0-9]{4})/g\<close>\<close>

definition phone_re :: re where
  "phone_re =
     seq [Opt (seq [Opt (lit CHR ''+''), lit CHR ''1'', Opt (Cls dash_dot_space)]),
          Opt (lit CHR ''(''),
          times 3 digit,
          Opt (lit CHR '')''),
          Opt (Cls dash_dot_space),
          times 3 digit,
          Opt (Cls dash_dot_space),
          times 4 digit]"

text \<open>\<^verbatim>\<open>/\b\d{3}-?\d{2}-?\d{4}\b/g\<close>\<close>

definition ssn_re :: re where
  "ssn_re =
     seq [WordB, times 3 digit, Opt (lit CHR ''-''), times 2 digit, Opt (lit CHR ''-''),
          times 4 digit, WordB]"

text \<open>\<^verbatim>\<open>/\b(?:\d{4}[-\s]?){3}\d{4}\b/g\<close>\<close>

definition creditCard_re :: re where
  "creditCard_re =
     seq [WordB,
          times 3 (seq [times 4 digit, Opt (Cls (\<lambda>c. is_char CHR ''-'' c \<or> is_space c))]),
          times 4 digit,
          WordB]"

text \<open>\<^verbatim>\<open>25[0-5]|2[0-4][0-9]|[01]?[0-9][0-9]?\<close>\<close>

definition octet :: re where
  "octet =
     Alt (seq [lit CHR ''2'', lit CHR ''5'', Cls (\<lambda>c. 48 \<le> c \<and> c \<le> 53)])
       (Alt (seq [lit CHR ''2'', Cls (\<lambda>c. 48 \<le> c \<and> c \<le> 52), digit])
            (seq [Opt (Cls (one_of ''01'')), digit, Opt digit]))"

text \<open>\<^verbatim>\<open>/\b(?:(?:25[0-5]|2[0-4][0-9]|[01]?[0-9][0-9]?)\.){3}(?:25[0-5]|2[0-4][0-9]|[01]?[0-9][0-9]?)\b/g\<close>\<close>

definition ipv4_re :: re where
  "ipv4_re = seq [WordB, times 3 (seq [octet, lit CHR ''.'']), octet, WordB]"

text \<open>\<^verbatim>\<open>/https?:\/\/[^\s]+[?&]([^=]+=[^&\s]+)/g\<close>\<close>

definition urlWithParams_re :: re where
  "urlWithParams_re =
     seq [lit CHR ''h'', lit CHR ''t'', lit CHR ''t'', lit CHR ''p'', Opt (lit CHR ''s''),
          lit CHR '':'', lit CHR ''/'', lit CHR ''/'',
          Many (\<lambda>c. \<not> is_space c) 1,
          Cls (one_of ''?&''),
          Many (\<lambda>c. \<not> is_char CHR ''='' c) 1,
          lit CHR ''='',
          Many (\<lambda>c. \<not> is_char CHR ''&'' c \<and> \<not> is_space c) 1]"

text \<open>\<^verbatim>\<open>/\b[A-Za-z0-9]{20,}\b/g\<close>\<close>

definition apiKey_re :: re where
  "apiKey_re = seq [WordB, Many is_alnum 20, WordB]"

text \<open>A pattern literal with the flag \<^verbatim>\<open>g\<close>, as the module creates it: \<^verbatim>\<open>lastIndex\<close> is 0.\<close>

definition global_regexp :: "re \<Rightarrow> RegExp" where
  "global_regexp r = \<lparr> rx_source = r, rx_global = True, lastIndex = 0 \<rparr>"

text \<open>\<^verbatim>\<open>Object.entries(PII_PATTERNS)\<close> when the module has been loaded: the names in the order
  of the object literal, each with its \<^verbatim>\<open>RegExp\<close> object.\<close>

definition PII_PATTERNS :: "(string \<times> RegExp) list" where
  "PII_PATTERNS =
     [(''email'', global_regexp email_re),
      (''phone'', global_regexp phone_re),
      (''ssn'', global_regexp ssn_re),
      (''creditCard'', global_regexp creditCard_re),
      (''ipv4'', global_regexp ipv4_re),
      (''urlWithParams'', global_regexp urlWithParams_re),
      (''apiKey'', global_regexp apiKey_re)]"

section \<open>Redaction (\<^verbatim>\<open>pii-redaction.ts\<close>)\<close>

definition SENSITIVE_FIELD_NAMES :: "jsstring list" where
  "SENSITIVE_FIELD_NAMES =
     map str [''password'', ''secret'', ''token'', ''key'', ''api_key'', ''apikey'', ''auth'',
              ''authorization'', ''credential'', ''private'', ''confidential'']"

record RedactionConfig =
  maxValueLength :: int
  enablePatternDetection :: bool
  enableFieldNameDetection :: bool
  customPatterns :: "RegExp list option"
  whitelistFields :: "jsstring list option"

definition DEFAULT_REDACTION_CONFIG :: RedactionConfig where
  "DEFAULT_REDACTION_CONFIG =
     \<lparr> maxValueLength = 100, enablePatternDetection = True, enableFieldNameDetection = True,
       customPatterns = Some [],
       whitelistFields = Some (map str [''id'', ''status'', ''version'', ''locale'', ''created_at'',
                                        ''updated_at'']) \<rparr>"

text \<open>
  The objects a call can write to are the \<^verbatim>\<open>RegExp\<close> objects of \<^verbatim>\<open>PII_PATTERNS\<close> and those of
  \<^verbatim>\<open>config.customPatterns\<close>. The functions of the module take the configuration and the
  current entries of \<^verbatim>\<open>PII_PATTERNS\<close> and return them as the call leaves them. (The
  \<^verbatim>\<open>RegExp\<close> objects of a configuration are taken to be distinct objects.)
\<close>

type_synonym regexps = "RedactionConfig \<times> (string \<times> RegExp) list"

text \<open>The decimal digits of a number, as a template string writes it.\<close>

definition digit_unit :: "nat \<Rightarrow> int" where
  "digit_unit n = 48 + int n"

function show_nat :: "nat \<Rightarrow> jsstring" where
  "show_nat n = (if n < 10 then [digit_unit n] else show_nat (n div 10) @ [digit_unit (n mod 10)])"
  by pat_completeness auto
termination
  by (relation "measure id") auto

definition show_int :: "int \<Rightarrow> jsstring" where
  "show_int i = (if i < 0 then str ''-'' @ show_nat (nat (- i)) else show_nat (nat i))"

text \<open>\<^verbatim>\<open>patternName.toUpperCase()\<close> on the names of \<^verbatim>\<open>PII_PATTERNS\<close>, which are Basic Latin
  letters and digits, and the marker \<^verbatim>\<open>[${patternName.toUpperCase()}_REDACTED]\<close>.\<close>

definition upper_unit :: "int \<Rightarrow> int" where
  "upper_unit u = (if 97 \<le> u \<and> u \<le> 122 then u - 32 else u)"

definition pattern_marker :: "string \<Rightarrow> jsstring" where
  "pattern_marker patternName = str ''['' @ map upper_unit (str patternName) @ str ''_REDACTED]''"

text \<open>The body of both loops over patterns: \<^verbatim>\<open>test\<close> on the original value, and on success
  \<^verbatim>\<open>replace\<close> on the value redacted so far. The result says whether the test succeeded.\<close>

definition test_and_replace ::
  "jsstring \<Rightarrow> jsstring \<Rightarrow> RegExp \<Rightarrow> jsstring \<Rightarrow> bool \<times> jsstring \<times> RegExp" where
  "test_and_replace v replacement pattern redactedValue =
     (case regexp_test pattern v of
        (True, pattern1) \<Rightarrow>
          (case string_replace redactedValue pattern1 replacement of
             (redactedValue1, pattern2) \<Rightarrow> (True, redactedValue1, pattern2))
      | (False, pattern1) \<Rightarrow> (False, redactedValue, pattern1))"

text \<open>\<^verbatim>\<open>for (const [patternName, pattern] of Object.entries(PII_PATTERNS))\<close>; the accumulator
  is \<^verbatim>\<open>redactedValue\<close> and \<^verbatim>\<open>redactionReasons\<close>.\<close>

fun pii_loop ::
  "jsstring \<Rightarrow> (string \<times> RegExp) list \<Rightarrow> jsstring \<times> jsstring list
   \<Rightarrow> (jsstring \<times> jsstring list) \<times> (string \<times> RegExp) list" where
  "pii_loop v [] acc = (acc, [])"
| "pii_loop v (entry # rest) acc =
     (case test_and_replace v (pattern_marker (fst entry)) (snd entry) (fst acc) of
        (hit, redactedValue1, pattern1) \<Rightarrow>
          (case pii_loop v rest
                  (redactedValue1, if hit then snd acc @ [str (fst entry)] else snd acc) of
             (acc1, rest1) \<Rightarrow> (acc1, (fst entry, pattern1) # rest1)))"

text \<open>\<^verbatim>\<open>for (const [index, pattern] of config.customPatterns.entries())\<close>\<close>

fun custom_loop ::
  "jsstring \<Rightarrow> nat \<Rightarrow> RegExp list \<Rightarrow> jsstring \<times> jsstring list
   \<Rightarrow> (jsstring \<times> jsstring list) \<times> RegExp list" where
  "custom_loop v index [] acc = (acc, [])"
| "custom_loop v index (pattern # rest) acc =
     (case test_and_replace v (str ''[CUSTOM_PII_REDACTED]'') pattern (fst acc) of
        (hit, redactedValue1, pattern1) \<Rightarrow>
          (case custom_loop v (Suc index) rest
                  (redactedValue1,
                   if hit then snd acc @ [str ''custom_pattern_'' @ show_nat index] else snd acc) of
             (acc1, rest1) \<Rightarrow> (acc1, pattern1 # rest1)))"

definition redactStringValue :: "jsstring \<Rightarrow> regexps \<Rightarrow> jsstring \<times> regexps" where
  "redactStringValue v st =
     (case st of (config, patterns) \<Rightarrow>
        if maxValueLength config > 0 \<and> int (length v) > maxValueLength config
        then (str ''[REDACTED: '' @ show_nat (length v) @ str '' characters - exceeds ''
                @ show_int (maxValueLength config) @ str '' chars]'', st)
        else if enablePatternDetection config
        then (case pii_loop v patterns (v, []) of
                (acc1, patterns1) \<Rightarrow>
                  (case customPatterns config of
                     None \<Rightarrow> (if snd acc1 \<noteq> [] then fst acc1 else v, (config, patterns1))
                   | Some ps \<Rightarrow>
                       (case custom_loop v 0 ps acc1 of
                          (acc2, ps1) \<Rightarrow>
                            (if snd acc2 \<noteq> [] then fst acc2 else v,
                             (config\<lparr> customPatterns := Some ps1 \<rparr>, patterns1)))))
        else (v, st))"

subsection \<open>Values\<close>

text \<open>The values that an event record and its snapshots are made of. An object is the
  list of its own enumerable properties in the order of \<^verbatim>\<open>Object.entries\<close>; its keys are
  distinct.\<close>

datatype jsval =
  VUndefined
  | VNull
  | VBool bool
  | VNum int
  | VStr jsstring
  | VArr "jsval list"
  | VObj "(jsstring \<times> jsval) list"

subsection \<open>Field names\<close>

text \<open>
  What the module takes from the host: \<^verbatim>\<open>String.prototype.toLowerCase\<close>, whose table
  covers all of Unicode, and \<^verbatim>\<open>JSON.parse\<close>, which answers \<open>None\<close> where it throws a
  \<^verbatim>\<open>SyntaxError\<close>.
\<close>

record host =
  toLowerCase :: "jsstring \<Rightarrow> jsstring"
  JSON_parse :: "jsstring \<Rightarrow> jsval option"

text \<open>\<^verbatim>\<open>String.prototype.includes\<close>\<close>

fun starts_with :: "jsstring \<Rightarrow> jsstring \<Rightarrow> bool" where
  "starts_with [] s = True"
| "starts_with (a # as) [] = False"
| "starts_with (a # as) (c # cs) = (a = c \<and> starts_with as cs)"

fun str_includes :: "jsstring \<Rightarrow> jsstring \<Rightarrow> bool" where
  "str_includes [] needle = starts_with needle []"
| "str_includes (c # cs) needle = (starts_with needle (c # cs) \<or> str_includes cs needle)"

definition isFieldNameSensitive :: "host \<Rightarrow> jsstring \<Rightarrow> RedactionConfig \<Rightarrow> bool" where
  "isFieldNameSensitive h fieldName config =
     (if \<not> enableFieldNameDetection config then False
      else if (case whitelistFields config of
                 None \<Rightarrow> False
               | Some wl \<Rightarrow> toLowerCase h fieldName \<in> set wl) then False
      else list_ex (\<lambda>sensitiveField. str_includes (toLowerCase h fieldName) sensitiveField)
             SENSITIVE_FIELD_NAMES)"

subsection \<open>Objects\<close>

text \<open>\<^verbatim>\<open>redactedObj[key] = v\<close> on the object under construction, whose properties so far are
  the entries \<open>out\<close>: a new own property at the end, except for the key \<^verbatim>\<open>__proto__\<close>, where
  the assignment goes to the setter inherited from \<^verbatim>\<open>Object.prototype\<close> and creates no
  own property.\<close>

definition assign :: "(jsstring \<times> jsval) list \<Rightarrow> jsstring \<Rightarrow> jsval \<Rightarrow> (jsstring \<times> jsval) list" where
  "assign out k v = (if k = str ''__proto__'' then out else out @ [(k, v)])"

text \<open>\<^verbatim>\<open>redactObjectFields\<close>; the argument \<^verbatim>\<open>parentKey\<close> is computed and never read. A string
  under a key is handed to \<^verbatim>\<open>redactStringValue\<close> by the loop itself, any other value by
  the recursive call, to the same effect. \<open>redact_items\<close> is the \<^verbatim>\<open>map\<close> over an array,
  \<open>redact_entries\<close> the loop over \<^verbatim>\<open>Object.entries(obj)\<close> with \<^verbatim>\<open>redactedObj\<close> as accumulator.\<close>

fun redactObjectFields :: "host \<Rightarrow> jsval \<Rightarrow> regexps \<Rightarrow> jsval \<times> regexps"
  and redact_items :: "host \<Rightarrow> jsval list \<Rightarrow> regexps \<Rightarrow> jsval list \<times> regexps"
  and redact_entries ::
    "host \<Rightarrow> (jsstring \<times> jsval) list \<Rightarrow> (jsstring \<times> jsval) list \<Rightarrow> regexps
     \<Rightarrow> (jsstring \<times> jsval) list \<times> regexps" where
  "redactObjectFields h VNull st = (VNull, st)"
| "redactObjectFields h VUndefined st = (VUndefined, st)"
| "redactObjectFields h (VArr xs) st =
     (case redact_items h xs st of (ys, st1) \<Rightarrow> (VArr ys, st1))"
| "redactObjectFields h (VObj kvs) st =
     (case redact_entries h kvs [] st of (redactedObj, st1) \<Rightarrow> (VObj redactedObj, st1))"
| "redactObjectFields h (VStr s) st =
     (case redactStringValue s st of (s1, st1) \<Rightarrow> (VStr s1, st1))"
| "redactObjectFields h (VNum n) st = (VNum n, st)"
| "redactObjectFields h (VBool b) st = (VBool b, st)"
| "redact_items h [] st = ([], st)"
| "redact_items h (x # xs) st =
     (case redactObjectFields h x st of
        (y, st1) \<Rightarrow> (case redact_items h xs st1 of (ys, st2) \<Rightarrow> (y # ys, st2)))"
| "redact_entries h [] redactedObj st = (redactedObj, st)"
| "redact_entries h (kv # rest) redactedObj st =
     (if isFieldNameSensitive h (fst kv) (fst st)
      then redact_entries h rest
             (assign redactedObj (fst kv) (VStr (str ''[REDACTED: sensitive field name]''))) st
      else (case redactObjectFields h (snd kv) st of
              (v1, st1) \<Rightarrow> redact_entries h rest (assign redactedObj (fst kv) v1) st1))"

subsection \<open>\<^verbatim>\<open>redactSensitiveData\<close>\<close>

text \<open>JavaScript truthiness.\<close>

fun truthy :: "jsval \<Rightarrow> bool" where
  "truthy VUndefined = False"
| "truthy VNull = False"
| "truthy (VBool b) = b"
| "truthy (VNum n) = (n \<noteq> 0)"
| "truthy (VStr s) = (s \<noteq> [])"
| "truthy (VArr xs) = True"
| "truthy (VObj kvs) = True"

text \<open>Reading and writing a property of the copy \<^verbatim>\<open>redactedEvent\<close>; a property that is not
  there reads as \<^verbatim>\<open>undefined\<close>.\<close>

definition get_prop :: "(jsstring \<times> jsval) list \<Rightarrow> jsstring \<Rightarrow> jsval" where
  "get_prop obj k = (case map_of obj k of None \<Rightarrow> VUndefined | Some v \<Rightarrow> v)"

definition set_prop :: "(jsstring \<times> jsval) list \<Rightarrow> jsstring \<Rightarrow> jsval \<Rightarrow> (jsstring \<times> jsval) list" where
  "set_prop obj k v =
     (if k \<in> set (map fst obj) then map (\<lambda>kv. if fst kv = k then (k, v) else kv) obj
      else obj @ [(k, v)])"

text \<open>
  The treatment of \<^verbatim>\<open>before\<close> and of \<^verbatim>\<open>after\<close>: a falsy value is left alone, a string is
  given to \<^verbatim>\<open>JSON.parse\<close> first, anything else is redacted as it is.
\<close>

definition redact_property ::
  "host \<Rightarrow> jsstring \<Rightarrow> (jsstring \<times> jsval) list \<Rightarrow> regexps
   \<Rightarrow> error + (jsstring \<times> jsval) list \<times> regexps" where
  "redact_property h name redactedEvent st =
     (let x = get_prop redactedEvent name
      in if \<not> truthy x then Inr (redactedEvent, st)
         else (case (case x of VStr s \<Rightarrow> JSON_parse h s | _ \<Rightarrow> Some x) of
                 None \<Rightarrow> Inl SyntaxError
               | Some snapshot \<Rightarrow>
                   (case redactObjectFields h snapshot st of
                      (v, st1) \<Rightarrow> Inr (set_prop redactedEvent name v, st1))))"

text \<open>\<^verbatim>\<open>redactSensitiveData(eventRecord, config)\<close>: the event record is the list of its
  properties; the result is the copy with \<^verbatim>\<open>before\<close> and \<^verbatim>\<open>after\<close> redacted, or the exception
  thrown, and the \<^verbatim>\<open>RegExp\<close> objects as the call leaves them.\<close>

definition redactSensitiveData ::
  "host \<Rightarrow> (jsstring \<times> jsval) list \<Rightarrow> regexps
   \<Rightarrow> error + (jsstring \<times> jsval) list \<times> regexps" where
  "redactSensitiveData h eventRecord st =
     (case redact_property h (str ''before'') eventRecord st of
        Inl err \<Rightarrow> Inl err
      | Inr (redactedEvent, st1) \<Rightarrow> redact_property h (str ''after'') redactedEvent st1)"

subsection \<open>\<^verbatim>\<open>validateRedaction\<close>\<close>

text \<open>The first loop of \<^verbatim>\<open>validateRedaction\<close> and its \<^verbatim>\<open>some\<close>: the patterns are tested in
  order until one matches; the patterns after it are not touched.\<close>

fun test_some :: "jsstring \<Rightarrow> (string \<times> RegExp) list \<Rightarrow> bool \<times> (string \<times> RegExp) list" where
  "test_some s [] = (False, [])"
| "test_some s (entry # rest) =
     (case regexp_test (snd entry) s of
        (True, pattern1) \<Rightarrow> (True, (fst entry, pattern1) # rest)
      | (False, pattern1) \<Rightarrow>
          (case test_some s rest of (found, rest1) \<Rightarrow> (found, (fst entry, pattern1) # rest1)))"

definition validateRedaction ::
  "jsstring \<Rightarrow> jsstring \<Rightarrow> (string \<times> RegExp) list \<Rightarrow> bool \<times> (string \<times> RegExp) list" where
  "validateRedaction original redacted patterns =
     (case test_some redacted patterns of
        (True, patterns1) \<Rightarrow> (False, patterns1)
      | (False, patterns1) \<Rightarrow>
          (case test_some original patterns1 of
             (originalHadPii, patterns2) \<Rightarrow>
               (\<not> (originalHadPii \<and> original = redacted), patterns2)))"

section \<open>Notions used in the statements\<close>



text \<open>The \<^verbatim>\<open>lastIndex\<close> of each entry of \<^verbatim>\<open>PII_PATTERNS\<close>, and what can be observed of a call of
  \<^verbatim>\<open>redactSensitiveData\<close>: the event it returns, with the \<^verbatim>\<open>lastIndex\<close> values it leaves
  behind (\<open>None\<close> when it throws).\<close>

definition lastIndexes :: "(string \<times> RegExp) list \<Rightarrow> nat list" where
  "lastIndexes patterns = map (\<lambda>entry. lastIndex (snd entry)) patterns"

definition redacted_view ::
  "error + (jsstring \<times> jsval) list \<times> regexps \<Rightarrow> ((jsstring \<times> jsval) list \<times> nat list) option" where
  "redacted_view r =
     (case r of Inl err \<Rightarrow> None | Inr (redactedEvent, st) \<Rightarrow> Some (redactedEvent, lastIndexes (snd st)))"

text \<open>\<^verbatim>\<open>redactSensitiveData(redactSensitiveData(x))\<close>: the second call finds the \<^verbatim>\<open>RegExp\<close>
  objects as the first left them.\<close>

definition redact_twice ::
  "host \<Rightarrow> (jsstring \<times> jsval) list \<Rightarrow> regexps \<Rightarrow> error + (jsstring \<times> jsval) list \<times> regexps" where
  "redact_twice h eventRecord st =
     (case redactSensitiveData h eventRecord st of
        Inl err \<Rightarrow> Inl err
      | Inr (redactedEvent, st1) \<Rightarrow> redactSensitiveData h redactedEvent st1)"

text \<open>Every \<^verbatim>\<open>RegExp\<close> object of a state is global and has \<^verbatim>\<open>lastIndex\<close> 0, as when the module
  has just been loaded.\<close>

definition at_rest :: "regexps \<Rightarrow> bool" where
  "at_rest st =
     (list_all (\<lambda>entry. rx_global (snd entry) \<and> lastIndex (snd entry) = 0) (snd st)
      \<and> (case customPatterns (fst st) of
            None \<Rightarrow> True
          | Some ps \<Rightarrow> list_all (\<lambda>pattern. rx_global pattern \<and> lastIndex pattern = 0) ps))"

text \<open>An entry of an export payload that comes from a key of the service: its fields are
  those the export writes for the key, and each of its translations is the exported form
  of a stored translation of the key.\<close>

definition exported_from :: "db \<Rightarrow> string \<Rightarrow> keyData \<Rightarrow> bool" where
  "exported_from d serviceId kd =
     (\<exists>k \<in> set (key_rows d).
        key_serviceId k = Some serviceId \<and> kd_id kd = key_id k \<and> kd_keyName kd = keyName k
        \<and> kd_namespaceId kd = or_undefined (key_namespaceId k) \<and> kd_tags kd = tags k
        \<and> kd_status kd = key_status k
        \<and> (\<forall>td \<in> set (kd_translations kd).
              \<exists>t \<in> set (translation_rows d). tr_keyId t = key_id k \<and> td = exported_translation t))"

section \<open>Example data\<close>

definition u_none :: IdentityUser where
  "u_none = \<lparr> sub = ''u1'', roles = None \<rparr>"

definition u_admin :: IdentityUser where
  "u_admin = \<lparr> sub = ''root'', roles = Some [''Admin''] \<rparr>"

definition u_editor :: IdentityUser where
  "u_editor = \<lparr> sub = ''e1'', roles = Some [''Editor'', ''Viewer''] \<rparr>"

definition u_viewer :: IdentityUser where
  "u_viewer = \<lparr> sub = ''v1'', roles = Some [''Viewer''] \<rparr>"

definition svc1 :: service where
  "svc1 = \<lparr> svc_id = ''s1'', svc_code = ''web'', svc_owners = [''o1''] \<rparr>"

definition key1 :: l10nKey where
  "key1 = \<lparr> key_id = ''k1'', key_serviceId = Some ''s1'', key_namespaceId = None,
            keyName = ''auth.login'', tags = [], key_status = active \<rparr>"

definition db1 :: db where
  "db1 = \<lparr> service_rows = [svc1], key_rows = [key1], translation_rows = [], event_rows = [] \<rparr>"

definition tr1 :: translation where
  "tr1 = \<lparr> tr_id = ''t1'', tr_keyId = ''k1'', tr_locale = EN, tr_value = Some ''Login'',
           tr_status = active, version = 5 \<rparr>"

definition db2 :: db where
  "db2 = \<lparr> service_rows = [svc1], key_rows = [key1], translation_rows = [tr1], event_rows = [] \<rparr>"

definition key2 :: l10nKey where
  "key2 = \<lparr> key_id = ''k2'', key_serviceId = Some ''s1'', key_namespaceId = Some ''ns1'',
            keyName = ''auth.logout'', tags = [''a'', ''b''], key_status = active \<rparr>"

definition tr2 :: translation where
  "tr2 = \<lparr> tr_id = ''t2'', tr_keyId = ''k2'', tr_locale = EN, tr_value = Some ''Logout'',
           tr_status = active, version = 5 \<rparr>"

definition db3 :: db where
  "db3 = \<lparr> service_rows = [svc1], key_rows = [key2], translation_rows = [tr2], event_rows = [] \<rparr>"

definition db4 :: db where
  "db4 = \<lparr> service_rows = [svc1], key_rows = [key2],
           translation_rows = [tr2\<lparr> tr_value := None \<rparr>], event_rows = [] \<rparr>"

definition td2 :: translationData where
  "td2 = \<lparr> td_locale = EN, td_value = ''Logout'', td_status = active, td_version = 5 \<rparr>"

definition kd2 :: keyData where
  "kd2 = \<lparr> kd_id = ''k2'', kd_keyName = ''auth.logout'', kd_namespaceId = Some ''ns1'',
           kd_tags = [''a'', ''b''], kd_status = active, kd_translations = [td2] \<rparr>"

text \<open>The body of a dry-run import of key \<open>k2\<close> with its two tags in the other order, and
  what the schema makes of it.\<close>

definition import_body1 :: json where
  "import_body1 =
     JObj [(''dryRun'', JBool True), (''service'', JStr ''web''),
           (''data'', JObj [(''keys'', JArr [JObj
              [(''id'', JStr ''k2''), (''keyName'', JStr ''auth.logout''),
               (''namespaceId'', JStr ''ns1''), (''tags'', JArr [JStr ''b'', JStr ''a'']),
               (''status'', JStr ''active''),
               (''translations'', JArr [JObj
                  [(''locale'', JStr ''en''), (''value'', JStr ''Logout''),
                   (''status'', JStr ''active''), (''version'', JNum 5)]])]])])]"

definition payload1 :: ImportPayload where
  "payload1 = \<lparr> ip_dryRun = True, ip_service = ''web'',
                ip_keys = [kd2\<lparr> kd_tags := [''b'', ''a''] \<rparr>] \<rparr>"



text \<open>The body of an import (not a dry run) of key \<open>k2\<close> as it is stored, with version 1 for
  its translation.\<close>

definition import_body2 :: json where
  "import_body2 =
     JObj [(''service'', JStr ''web''),
           (''data'', JObj [(''keys'', JArr [JObj
              [(''id'', JStr ''k2''), (''keyName'', JStr ''auth.logout''),
               (''namespaceId'', JStr ''ns1''), (''tags'', JArr [JStr ''a'', JStr ''b'']),
               (''status'', JStr ''active''),
               (''translations'', JArr [JObj
                  [(''locale'', JStr ''en''), (''value'', JStr ''Logout''),
                   (''status'', JStr ''active''), (''version'', JNum 1)]])]])])]"

definition body1 :: updateBody where
  "body1 = \<lparr> ub_locale = EN, ub_value = Some ''Sign in'', ub_status = None \<rparr>"

text \<open>An environment in which every insert into \<^verbatim>\<open>event\<close> fails and nothing else does.\<close>

definition env_no_audit :: env where
  "env_no_audit = env0\<lparr> fails := (\<lambda>op. op = Insert_event) \<rparr>"

text \<open>A host for the examples: \<^verbatim>\<open>toLowerCase\<close> as it acts on strings of Latin-1 characters,
  and a \<^verbatim>\<open>JSON.parse\<close> that refuses every string (it is not called when \<^verbatim>\<open>before\<close> and
  \<^verbatim>\<open>after\<close> are objects).\<close>

definition lower_unit :: "int \<Rightarrow> int" where
  "lower_unit u =
     (if (65 \<le> u \<and> u \<le> 90) \<or> (192 \<le> u \<and> u \<le> 222 \<and> u \<noteq> 215) then u + 32 else u)"

definition host0 :: host where
  "host0 = \<lparr> toLowerCase = map lower_unit, JSON_parse = (\<lambda>s. None) \<rparr>"

text \<open>The module as loaded, with the default configuration.\<close>

definition loaded :: regexps where
  "loaded = (DEFAULT_REDACTION_CONFIG, PII_PATTERNS)"

text \<open>The event of an update of translation \<open>t1\<close> whose new value is the given string.\<close>

definition value_event :: "jsstring \<Rightarrow> (jsstring \<times> jsval) list" where
  "value_event s =
     [(str ''id'', VStr (str ''event-123'')), (str ''actor'', VStr (str ''u1'')),
      (str ''action'', VStr (str ''update'')), (str ''entityType'', VStr (str ''translation'')),
      (str ''entityId'', VStr (str ''t1'')), (str ''before'', VNull),
      (str ''after'', VObj [(str ''value'', VStr s), (str ''status'', VStr (str ''active''))])]"

definition six_emails :: jsstring where
  "six_emails = str ''a@b.co a@b.co a@b.co a@b.co a@b.co a@b.co''"

text \<open>An event with a sensitively named field, nested objects, an array and a number.\<close>

definition ev_contact :: "(jsstring \<times> jsval) list" where
  "ev_contact =
     [(str ''id'', VStr (str ''event-123'')), (str ''action'', VStr (str ''update'')),
      (str ''before'', VObj [(str ''password'', VStr (str ''hunter2'')), (str ''version'', VNum 5)]),
      (str ''after'', VObj [(str ''contact'', VStr (str ''call support@x.com'')),
                            (str ''metadata'', VObj [(str ''apiKey'', VStr (str ''abc123'')),
                                                     (str ''timeout'', VNum 30)]),
                            (str ''list'', VArr [VStr (str ''ok''), VNull, VBool True,
                                                 VStr (str ''Call (555) 123-4567'')])])]"

definition ev_contact_redacted :: "(jsstring \<times> jsval) list" where
  "ev_contact_redacted =
     [(str ''id'', VStr (str ''event-123'')), (str ''action'', VStr (str ''update'')),
      (str ''before'', VObj [(str ''password'', VStr (str ''[REDACTED: sensitive field name]'')),
                             (str ''version'', VNum 5)]),
      (str ''after'', VObj [(str ''contact'', VStr (str ''call [EMAIL_REDACTED]'')),
                            (str ''metadata'',
                               VObj [(str ''apiKey'', VStr (str ''[REDACTED: sensitive field name]'')),
                                     (str ''timeout'', VNum 30)]),
                            (str ''list'', VArr [VStr (str ''ok''), VNull, VBool True,
                                                 VStr (str ''Call [PHONE_REDACTED]'')])])]"

text \<open>A key with no service and its translation.\<close>

definition key0 :: l10nKey where
  "key0 = \<lparr> key_id = ''k0'', key_serviceId = None, key_namespaceId = None,
            keyName = ''common.ok'', tags = [], key_status = active \<rparr>"

definition tr0 :: translation where
  "tr0 = \<lparr> tr_id = ''t0'', tr_keyId = ''k0'', tr_locale = EN, tr_value = Some ''OK'',
           tr_status = active, version = 1 \<rparr>"

definition db5 :: db where
  "db5 = \<lparr> service_rows = [svc1], key_rows = [key0], translation_rows = [tr0], event_rows = [] \<rparr>"

section \<open>Role policy and access checks\<close>

lemma no_roles_hasRole: "roles u = None \<or> roles u = Some [] \<Longrightarrow> \<not> hasRole (Some u) r"
  by (auto simp: hasRole_def)

lemma no_roles_hasAnyRole: "roles u = None \<or> roles u = Some [] \<Longrightarrow> \<not> hasAnyRole (Some u) rs"
  by (auto simp: hasAnyRole_def list_ex_iff)

lemma no_roles_roleDecision: "roles u = None \<or> roles u = Some [] \<Longrightarrow> \<not> roleDecision (Some u) p"
  by (cases p) (simp_all add: roleDecision_def canView_def canEdit_def no_roles_hasAnyRole)

lemma isAdmin_present: "isAdmin user \<Longrightarrow> user \<noteq> None"
  by (cases user) (auto simp: isAdmin_def hasRole_def)

text \<open>
  Claim C9. An identity whose role list is undefined or empty has no capability:
  \<open>hasRole\<close>, \<open>hasAnyRole\<close>, \<open>isAdmin\<close>, \<open>canEdit\<close>, \<open>canReview\<close> and \<open>canView\<close> are all
  false, for every role and role list asked for, so the role-only decision denies read
  and write; hence a key with no service, and a translation or key whose service id is
  null or empty, is denied by the access checks. Both forms of "no roles" give the same
  answers, since both give \<open>False\<close> everywhere.
\<close>

theorem no_roles_no_capability:
  assumes "roles u = None \<or> roles u = Some []"
  shows "\<not> hasRole (Some u) role \<and> \<not> hasAnyRole (Some u) rls \<and> \<not> isAdmin (Some u)
     \<and> \<not> canEdit (Some u) \<and> \<not> canReview (Some u) \<and> \<not> canView (Some u)
     \<and> \<not> roleDecision (Some u) permission
     \<and> (key_serviceId k = None \<longrightarrow> \<not> keyPointCheck e d (Some u) permission k)
     \<and> ((\<exists>sid ow rest. select_translation_with_service e d tid = Inr ((sid, ow) # rest) \<and> falsy sid)
          \<longrightarrow> validateTranslationAccess e d (Some u) tid permission = Inr False)
     \<and> ((\<exists>sid ow rest. select_key_with_service e d kid = Inr ((sid, ow) # rest) \<and> falsy sid)
          \<longrightarrow> validateTranslationAccessByKey e d (Some u) kid permission = Inr False)"
  using assms no_roles_roleDecision[OF assms, of permission]
  by (auto simp: no_roles_hasRole no_roles_hasAnyRole isAdmin_def canEdit_def canReview_def
      canView_def keyPointCheck_def validateTranslationAccess_def
      validateTranslationAccessByKey_def catch_false_def)

theorem no_roles_no_capability_witness:
  "roles u_none = None
   \<and> \<not> hasRole (Some u_none) ''Viewer'' \<and> \<not> hasAnyRole (Some u_none) [''Viewer'', ''Admin'']
   \<and> \<not> canEdit (Some u_none) \<and> \<not> canReview (Some u_none) \<and> \<not> canView (Some u_none)
   \<and> \<not> roleDecision (Some u_none) READ
   \<and> key_serviceId key0 = None
   \<and> \<not> keyPointCheck env0 db5 (Some u_none) READ key0
   \<and> select_translation_with_service env0 db5 ''t0'' = Inr ((None, None) # []) \<and> falsy None
   \<and> validateTranslationAccess env0 db5 (Some u_none) ''t0'' READ = Inr False
   \<and> select_key_with_service env0 db5 ''k0'' = Inr ((None, None) # [])
   \<and> validateTranslationAccessByKey env0 db5 (Some u_none) ''k0'' READ = Inr False"
proof -
  have h: "roles u_none = None \<or> roles u_none = Some []"
    by (simp add: u_none_def)
  have k: "key_serviceId key0 = None"
    by (simp add: key0_def)
  have t: "select_translation_with_service env0 db5 ''t0'' = Inr ((None, None) # [])"
    by (simp add: select_translation_with_service_def left_join_service_def env0_def db5_def
        key0_def tr0_def svc1_def)
  have q: "select_key_with_service env0 db5 ''k0'' = Inr ((None, None) # [])"
    by (simp add: select_key_with_service_def left_join_service_def env0_def db5_def
        key0_def svc1_def)
  have f: "falsy None"
    by (simp add: falsy_def)
  show ?thesis
    using no_roles_no_capability[OF h, of "''Viewer''" "[''Viewer'', ''Admin'']" READ
        key0 env0 db5 "''t0''" "''k0''"] k t q f
    by (simp add: u_none_def)
qed

text \<open>
  Claim C8, as stated, fails: an Admin is allowed before any lookup, so a service id with
  no record is not denied.
\<close>

theorem missing_resource_admin_counterexample:
  "filter (\<lambda>s. svc_id s = ''missing'') (service_rows db1) = []
   \<and> validateServiceAccess env0 db1 (Some u_admin) ''missing'' WRITE \<noteq> Inr False"
  by (simp add: db1_def svc1_def validateServiceAccess_def isAdmin_def hasRole_def u_admin_def)

text \<open>
  Claim C8, amended. When no service has id \<open>sid\<close> and no translation has id \<open>tid\<close>:
  for every identity that is not Admin (the absent identity included),
  \<open>validateServiceAccess\<close> and \<open>validateTranslationAccess\<close> return false; for an Admin
  all three checks return true without a lookup; \<open>canAccessService\<close> has no existence
  check and returns the role-only decision for a present identity that is not Admin.
\<close>

theorem missing_resource_denied_unless_admin:
  assumes "sid \<notin> set (map svc_id (service_rows d))"
      and "tid \<notin> set (map tr_id (translation_rows d))"
  shows "(\<not> isAdmin user \<longrightarrow>
            validateServiceAccess e d user sid p = Inr False
          \<and> validateTranslationAccess e d user tid p = Inr False
          \<and> canAccessService e d user sid p = Inr (user \<noteq> None \<and> roleDecision user p))
       \<and> (isAdmin user \<longrightarrow>
            validateServiceAccess e d user sid p = Inr True
          \<and> validateTranslationAccess e d user tid p = Inr True
          \<and> canAccessService e d user sid p = Inr True)"
proof -
  have f1: "filter (\<lambda>s. svc_id s = sid) (service_rows d) = []"
    using assms(1) by (auto simp: filter_empty_conv)
  have f2: "filter (\<lambda>t. tr_id t = tid) (translation_rows d) = []"
    using assms(2) by (auto simp: filter_empty_conv)
  show ?thesis
    using isAdmin_present[of user]
    by (cases user)
       (auto simp: validateServiceAccess_def validateTranslationAccess_def canAccessService_def
          isServiceOwner_def select_service_owners_def select_translation_with_service_def
          catch_false_def f1 f2)
qed

theorem missing_resource_denied_unless_admin_witness:
  "''missing'' \<notin> set (map svc_id (service_rows db1))
   \<and> ''t9'' \<notin> set (map tr_id (translation_rows db1))
   \<and> \<not> isAdmin (Some u_viewer)
   \<and> validateServiceAccess env0 db1 (Some u_viewer) ''missing'' READ = Inr False
   \<and> validateTranslationAccess env0 db1 (Some u_viewer) ''t9'' READ = Inr False
   \<and> canAccessService env0 db1 (Some u_viewer) ''missing'' READ = Inr True
   \<and> isAdmin (Some u_admin)
   \<and> validateServiceAccess env0 db1 (Some u_admin) ''missing'' READ = Inr True"
proof -
  have h1: "''missing'' \<notin> set (map svc_id (service_rows db1))"
    by (simp add: db1_def svc1_def)
  have h2: "''t9'' \<notin> set (map tr_id (translation_rows db1))"
    by (simp add: db1_def)
  have v: "\<not> isAdmin (Some u_viewer)" "roleDecision (Some u_viewer) READ"
    by (simp_all add: isAdmin_def hasRole_def u_viewer_def roleDecision_def canView_def
        hasAnyRole_def)
  have a: "isAdmin (Some u_admin)"
    by (simp add: isAdmin_def hasRole_def u_admin_def)
  show ?thesis
    using missing_resource_denied_unless_admin[OF h1 h2, of "Some u_viewer" env0 READ]
      missing_resource_denied_unless_admin[OF h1 h2, of "Some u_admin" env0 READ] h1 h2 v a
    by simp
qed

lemma access_checks_total:
  "\<exists>b. validateServiceAccess e d user sid p = Inr b"
  by (cases user)
     (auto simp: validateServiceAccess_def select_service_owners_def catch_false_def
        split: list.splits sum.splits)

text \<open>
  Claim C10. The access resolvers fail closed. None of \<open>validateServiceAccess\<close>,
  \<open>validateTranslationAccess\<close> and \<open>isServiceOwner\<close> ever throws (the result is never
  \<open>Inl\<close>), whatever the environment. When the lookup of the check throws, the result is
  false; the only true answer under a failing lookup is the Admin short-cut of
  \<open>validateServiceAccess\<close> and \<open>validateTranslationAccess\<close>, which returns before the
  lookup is made, so no error is involved in it.
\<close>

theorem access_checks_fail_closed:
  "(\<exists>b. validateServiceAccess e d user sid p = Inr b)
   \<and> (\<exists>b. validateTranslationAccess e d user tid p = Inr b)
   \<and> (\<exists>b. isServiceOwner e d user sid = Inr b)
   \<and> (fails e Select_service \<longrightarrow>
         validateServiceAccess e d user sid p = Inr (isAdmin user)
       \<and> isServiceOwner e d user sid = Inr False)
   \<and> (fails e Select_translation \<longrightarrow>
         validateTranslationAccess e d user tid p = Inr (isAdmin user))"
  by (cases user)
     (auto simp: validateServiceAccess_def validateTranslationAccess_def isServiceOwner_def
        select_service_owners_def select_translation_with_service_def catch_false_def
        isAdmin_def hasRole_def
        split: list.splits option.splits sum.splits)

theorem access_checks_fail_closed_witness:
  "fails (env0\<lparr>fails := \<lambda>_. True\<rparr>) Select_service
   \<and> fails (env0\<lparr>fails := \<lambda>_. True\<rparr>) Select_translation
   \<and> validateServiceAccess (env0\<lparr>fails := \<lambda>_. True\<rparr>) db1 (Some u_editor) ''s1'' READ = Inr False
   \<and> isServiceOwner (env0\<lparr>fails := \<lambda>_. True\<rparr>) db1 (Some u_editor) ''s1'' = Inr False
   \<and> validateTranslationAccess (env0\<lparr>fails := \<lambda>_. True\<rparr>) db1 (Some u_editor) ''t1'' READ
       = Inr False"
proof -
  have a: "\<not> isAdmin (Some u_editor)"
    by (simp add: isAdmin_def hasRole_def u_editor_def)
  show ?thesis
    using access_checks_fail_closed[of "env0\<lparr>fails := \<lambda>_. True\<rparr>" db1 "Some u_editor" "''s1''"
        READ "''t1''"] a
    by simp
qed

section \<open>Query filter against the single-resource check\<close>

lemma filter_unique_id:
  "distinct (map f xs) \<Longrightarrow> x \<in> set xs \<Longrightarrow> filter (\<lambda>y. f y = f x) xs = [x]"
proof (induction xs)
  case Nil
  then show ?case by simp
next
  case (Cons a xs)
  show ?case
  proof (cases "a = x")
    case True
    have "f x \<notin> f ` set xs"
      using Cons.prems(1) True by simp
    then have "\<forall>y\<in>set xs. f y \<noteq> f x"
      by (metis imageI)
    then have "filter (\<lambda>y. f y = f x) xs = []"
      by (simp add: filter_empty_conv)
    then show ?thesis using True by simp
  next
    case False
    then have "x \<in> set xs" using Cons.prems(2) by simp
    moreover have "f a \<noteq> f x" using Cons.prems(1) \<open>x \<in> set xs\<close> by auto
    ultimately show ?thesis using Cons by simp
  qed
qed

lemma validateServiceAccess_existing:
  assumes "healthy e" "distinct (map svc_id (service_rows d))" "s \<in> set (service_rows d)"
    and "\<not> isAdmin (Some u)"
  shows "validateServiceAccess e d (Some u) (svc_id s) p
         = Inr (sub u \<in> set (svc_owners s) \<or> roleDecision (Some u) p)"
proof -
  have "filter (\<lambda>y. svc_id y = svc_id s) (service_rows d) = [s]"
    using assms(2,3) by (rule filter_unique_id)
  then show ?thesis
    using assms(1,4)
    by (simp add: validateServiceAccess_def select_service_owners_def healthy_def catch_false_def)
qed

lemma accessible_iff:
  assumes "distinct (map svc_id (service_rows d))" "s \<in> set (service_rows d)"
  shows "svc_id s \<in> set (accessibleServiceIds d u) \<longleftrightarrow> sub u \<in> set (svc_owners s)"
proof
  assume "svc_id s \<in> set (accessibleServiceIds d u)"
  then obtain s' where s': "s' \<in> set (service_rows d)" "sub u \<in> set (svc_owners s')"
      "svc_id s' = svc_id s"
    by (auto simp: accessibleServiceIds_def)
  have "s' = s" using assms s'(1,3) by (meson distinct_map inj_onD)
  then show "sub u \<in> set (svc_owners s)" using s'(2) by simp
next
  assume "sub u \<in> set (svc_owners s)"
  then show "svc_id s \<in> set (accessibleServiceIds d u)"
    using assms(2) by (auto simp: accessibleServiceIds_def)
qed

lemma owns_iff:
  assumes "distinct (map svc_id (service_rows d))" "s \<in> set (service_rows d)"
    "key_serviceId k = Some (svc_id s)"
  shows "owns_service_of d u k \<longleftrightarrow> sub u \<in> set (svc_owners s)"
proof
  assume "owns_service_of d u k"
  then obtain s' where s': "s' \<in> set (service_rows d)" "sub u \<in> set (svc_owners s')"
      "svc_id s' = svc_id s"
    using assms(3) by (auto simp: owns_service_of_def list_ex_iff)
  have "s' = s" using assms(1,2) s'(1,3) by (meson distinct_map inj_onD)
  then show "sub u \<in> set (svc_owners s)" using s'(2) by simp
next
  assume "sub u \<in> set (svc_owners s)"
  then show "owns_service_of d u k"
    using assms(2,3) by (auto simp: owns_service_of_def list_ex_iff)
qed

text \<open>
  Claim C1, as stated, fails: an Editor who does not own service \<open>s1\<close> passes the
  single-resource write check on a key of \<open>s1\<close> (the role decides), and the list filter
  for write leaves that key out (it keeps owned services and keys with no service only).
\<close>

theorem filter_point_check_counterexample:
  "key1 \<in> set (key_rows db1)
   \<and> \<not> addKeyServiceAccessFilter db1 (Some u_editor) WRITE key1
   \<and> keyPointCheck env0 db1 (Some u_editor) WRITE key1"
  by (simp add: db1_def key1_def svc1_def u_editor_def env0_def addKeyServiceAccessFilter_def
      keyPointCheck_def validateServiceAccess_def select_service_owners_def catch_false_def
      accessibleServiceIds_def isAdmin_def hasRole_def canEdit_def canView_def hasAnyRole_def
      roleDecision_def)

text \<open>
  Claim C1, amended. With no failing statement, unique service ids, a key whose service
  (if any) exists and whose id is not the literal \<^verbatim>\<open>impossible-key-id\<close>: the list filter and
  the single-resource check agree on the key row except in exactly three situations, all
  for a present identity that is not Admin:
  \<^item> read without a view role on a key with no service (the filter keeps it, the check
    denies);
  \<^item> write with an edit role on a key of a service the identity does not own (the check
    allows, the filter drops it);
  \<^item> write without an edit role on a key of a service the identity owns (the check allows,
    the filter drops everything).
\<close>

theorem filter_point_check_agreement:
  assumes "healthy e" and "distinct (map svc_id (service_rows d))"
    and "key_service_exists d k" and "key_id k \<noteq> ''impossible-key-id''"
  shows "(addKeyServiceAccessFilter d user p k \<longleftrightarrow> keyPointCheck e d user p k) \<longleftrightarrow>
     \<not> (\<exists>u. user = Some u \<and> \<not> isAdmin user \<and>
          ((p = READ \<and> \<not> canView user \<and> key_serviceId k = None)
         \<or> (p = WRITE \<and> canEdit user \<and> key_serviceId k \<noteq> None \<and> \<not> owns_service_of d u k)
         \<or> (p = WRITE \<and> \<not> canEdit user \<and> owns_service_of d u k)))"
proof (cases user)
  case None
  then show ?thesis
    using assms(4)
    by (auto simp: addKeyServiceAccessFilter_def keyPointCheck_def validateServiceAccess_def
        split: option.splits)
next
  case (Some u)
  show ?thesis
  proof (cases "isAdmin user")
    case True
    then show ?thesis
      using Some
      by (auto simp: addKeyServiceAccessFilter_def keyPointCheck_def validateServiceAccess_def
          split: option.splits)
  next
    case nadm: False
    show ?thesis
    proof (cases "key_serviceId k")
      case None
      then show ?thesis
        using Some nadm assms(4)
        by (cases p)
           (auto simp: addKeyServiceAccessFilter_def keyPointCheck_def roleDecision_def
              owns_service_of_def)
    next
      case (Some sid)
      then obtain s where s: "s \<in> set (service_rows d)" "svc_id s = sid"
        using assms(3) by (auto simp: key_service_exists_def)
      have v: "validateServiceAccess e d (Some u) sid p
               = Inr (sub u \<in> set (svc_owners s) \<or> roleDecision (Some u) p)"
        using validateServiceAccess_existing[OF assms(1,2) s(1), of u p] nadm \<open>user = Some u\<close> s(2)
        by simp
      have a: "sid \<in> set (accessibleServiceIds d u) \<longleftrightarrow> sub u \<in> set (svc_owners s)"
        using accessible_iff[OF assms(2) s(1), of u] s(2) by simp
      have ow: "owns_service_of d u k \<longleftrightarrow> sub u \<in> set (svc_owners s)"
        using owns_iff[OF assms(2) s(1), of k u] Some s(2) by simp
      show ?thesis
        using \<open>user = Some u\<close> nadm Some assms(4) v a ow
        by (cases p)
           (auto simp: addKeyServiceAccessFilter_def keyPointCheck_def roleDecision_def)
    qed
  qed
qed

theorem filter_point_check_agreement_witness:
  "healthy env0 \<and> distinct (map svc_id (service_rows db1)) \<and> key_service_exists db1 key1
   \<and> key_id key1 \<noteq> ''impossible-key-id''
   \<and> addKeyServiceAccessFilter db1 (Some u_viewer) READ key1
   \<and> keyPointCheck env0 db1 (Some u_viewer) READ key1"
proof -
  have h: "healthy env0" "distinct (map svc_id (service_rows db1))" "key_service_exists db1 key1"
    "key_id key1 \<noteq> ''impossible-key-id''"
    by (simp_all add: healthy_def env0_def db1_def svc1_def key1_def key_service_exists_def)
  have cv: "canView (Some u_viewer)"
    by (simp add: canView_def hasAnyRole_def u_viewer_def)
  have f: "addKeyServiceAccessFilter db1 (Some u_viewer) READ key1"
    using cv by (simp add: addKeyServiceAccessFilter_def)
  show ?thesis
    using filter_point_check_agreement[OF h, of "Some u_viewer" READ] h f cv by auto
qed

text \<open>On a key row of the table, the single-resource check of the statement above is what
  \<open>validateTranslationAccessByKey\<close> computes from the key's id.\<close>

lemma keyPointCheck_by_key_id:
  assumes "healthy e" and "distinct (map key_id (key_rows d))" and "k \<in> set (key_rows d)"
    and "key_serviceId k \<noteq> Some []"
  shows "validateTranslationAccessByKey e d user (key_id k) p = Inr (keyPointCheck e d user p k)"
proof -
  have f: "filter (\<lambda>y. key_id y = key_id k) (key_rows d) = [k]"
    using assms(2,3) by (rule filter_unique_id)
  obtain ow rest where lj: "left_join_service d k = (key_serviceId k, ow) # rest"
    by (cases "filter (\<lambda>s. key_serviceId k = Some (svc_id s)) (service_rows d)")
       (auto simp: left_join_service_def)
  have sel: "select_key_with_service e d (key_id k) = Inr [(key_serviceId k, ow)]"
    using assms(1) f lj by (simp add: select_key_with_service_def healthy_def)
  have total: "\<And>sid. \<exists>b. validateServiceAccess e d user sid p = Inr b"
    using access_checks_total by blast
  show ?thesis
  proof (cases user)
    case None
    then show ?thesis
      by (auto simp: validateTranslationAccessByKey_def keyPointCheck_def validateServiceAccess_def
          split: option.splits)
  next
    case (Some u)
    show ?thesis
    proof (cases "isAdmin user")
      case True
      then show ?thesis
        using Some
        by (auto simp: validateTranslationAccessByKey_def keyPointCheck_def
            validateServiceAccess_def split: option.splits)
    next
      case False
      show ?thesis
      proof (cases "key_serviceId k")
        case None
        then show ?thesis
          using Some False sel
          by (simp add: validateTranslationAccessByKey_def keyPointCheck_def falsy_def
              catch_false_def)
      next
        case (Some sid)
        then have nf: "\<not> falsy (key_serviceId k)"
          using assms(4) by (simp add: falsy_def)
        obtain b where b: "validateServiceAccess e d user sid p = Inr b"
          using total by blast
        show ?thesis
          using \<open>user = Some u\<close> False sel nf Some b
          by (simp add: validateTranslationAccessByKey_def keyPointCheck_def catch_false_def)
      qed
    qed
  qed
qed

section \<open>The import schema\<close>

text \<open>What the schema accepts has a non-empty service code, keys with a non-empty id and
  key name, and translations with a positive version.\<close>

lemma those_mem:
  "those xs = Some ys \<Longrightarrow> y \<in> set ys \<Longrightarrow> Some y \<in> set xs"
  by (induction xs arbitrary: ys) (auto split: option.splits)

lemma z_array_mem:
  assumes "z_array item v = Some ys" and "y \<in> set ys"
  shows "\<exists>x. item (Some x) = Some y"
proof -
  from assms(1) obtain xs where "those (map (\<lambda>x. item (Some x)) xs) = Some ys"
    by (auto simp: z_array_def split: option.splits json.splits)
  from those_mem[OF this assms(2)] show ?thesis by auto
qed

lemma translationSchema_version:
  "translationSchema v = Some t \<Longrightarrow> 0 < td_version t"
  by (auto simp: translationSchema_def z_default_def z_int_positive_def
      split: option.splits json.splits if_splits)

lemma keySchema_fields:
  assumes "keySchema v = Some k"
  shows "kd_id k \<noteq> [] \<and> kd_keyName k \<noteq> []
       \<and> (\<forall>t \<in> set (kd_translations k). 0 < td_version t)"
proof -
  from assms obtain kvs where v: "v = Some (JObj kvs)"
    by (auto simp: keySchema_def split: option.splits json.splits)
  from assms v have i: "z_string_min 1 (property kvs ''id'') = Some (kd_id k)"
    and kn: "z_string_min 1 (property kvs ''keyName'') = Some (kd_keyName k)"
    and ts: "z_default [] (z_array translationSchema) (property kvs ''translations'')
             = Some (kd_translations k)"
    by (auto simp: keySchema_def split: option.splits)
  from i kn have ne: "kd_id k \<noteq> [] \<and> kd_keyName k \<noteq> []"
    by (auto simp: z_string_min_def split: option.splits json.splits if_splits)
  have "\<forall>t \<in> set (kd_translations k). 0 < td_version t"
  proof
    fix t assume t: "t \<in> set (kd_translations k)"
    from ts t have "z_array translationSchema (property kvs ''translations'')
                    = Some (kd_translations k)"
      by (auto simp: z_default_def split: option.splits)
    from z_array_mem[OF this t] translationSchema_version show "0 < td_version t" by blast
  qed
  with ne show ?thesis by simp
qed

lemma importPayloadSchema_fields:
  assumes "importPayloadSchema body = Some p"
  shows "ip_service p \<noteq> []
       \<and> (\<forall>k \<in> set (ip_keys p). kd_id k \<noteq> [] \<and> kd_keyName k \<noteq> []
             \<and> (\<forall>t \<in> set (kd_translations k). 0 < td_version t))"
proof -
  from assms obtain kvs dkvs where
    sv: "z_string_min 1 (property kvs ''service'') = Some (ip_service p)"
    and ks: "z_array keySchema (property dkvs ''keys'') = Some (ip_keys p)"
    by (auto simp: importPayloadSchema_def split: option.splits json.splits)
  from sv have "ip_service p \<noteq> []"
    by (auto simp: z_string_min_def split: option.splits json.splits if_splits)
  moreover have "\<forall>k \<in> set (ip_keys p). kd_id k \<noteq> [] \<and> kd_keyName k \<noteq> []
             \<and> (\<forall>t \<in> set (kd_translations k). 0 < td_version t)"
    using z_array_mem[OF ks] keySchema_fields by blast
  ultimately show ?thesis by simp
qed

text \<open>A translation with version 0 and a key with an empty id are refused; a version, a
  status, tags and translations that are absent get their defaults.\<close>

lemma schema_examples:
  "translationSchema (Some (JObj [(''locale'', JStr ''en''), (''value'', JStr ''Logout''),
                                   (''version'', JNum 0)])) = None
   \<and> translationSchema (Some (JObj [(''locale'', JStr ''en''), (''value'', JStr ''Logout'')]))
     = Some \<lparr> td_locale = EN, td_value = ''Logout'', td_status = draft, td_version = 1 \<rparr>
   \<and> keySchema (Some (JObj [(''id'', JStr []), (''keyName'', JStr ''auth.logout'')])) = None
   \<and> keySchema (Some (JObj [(''id'', JStr ''k2''), (''keyName'', JStr ''auth.logout'')]))
     = Some \<lparr> kd_id = ''k2'', kd_keyName = ''auth.logout'', kd_namespaceId = None,
              kd_tags = [], kd_status = draft, kd_translations = [] \<rparr>"
  by code_simp

section \<open>The translation update route\<close>

text \<open>
  Claim C2 fails on the code of the update route. The handler awaits the update of the
  translation and then awaits \<open>logEvent\<close>, with no transaction around the two and no
  compensation: when the insert of the event throws, the exception leaves the handler
  and the update stays. Here an Editor updates translation \<open>t1\<close> (version 5) while inserts
  into \<^verbatim>\<open>event\<close> fail: the handler throws, the stored translation has the new value and
  version 6, and the event table is still empty.
\<close>

theorem update_persists_when_audit_fails:
  "translationPUT env_no_audit (Some u_editor) ''t1'' (Some body1) (db2, 0)
   = (Inl (DbError Insert_event),
      (db2\<lparr> translation_rows := [tr1\<lparr> tr_value := Some ''Sign in'', version := 6 \<rparr>] \<rparr>, 1))"
  by code_simp

text \<open>In general: whenever the update succeeds and the insert of the event fails, the
  handler throws and leaves the updated translation behind.\<close>

lemma putWrite_audit_failure:
  assumes "fails e Insert_event" and "\<not> fails e Update_translation"
    and "int4 (version ex + 1)"
  shows "putWrite e u tid body ex (d, n)
         = (Inl (DbError Insert_event),
            (d\<lparr> translation_rows :=
                  map (\<lambda>t. if tr_id t = tid then apply_translation_set (updateData body ex) t else t)
                    (translation_rows d) \<rparr>, n + 1))"
  using assms
  by (simp add: putWrite_def update_translation_def updateData_def logEvent_def insert_event_def)

lemma find_unique:
  "distinct (map f xs) \<Longrightarrow> find (\<lambda>y. f y = a) xs = Some x \<Longrightarrow> y \<in> set xs \<Longrightarrow> f y = a \<Longrightarrow> y = x"
proof -
  assume d: "distinct (map f xs)" and fx: "find (\<lambda>y. f y = a) xs = Some x"
    and y: "y \<in> set xs" "f y = a"
  from fx have "x \<in> set xs" "f x = a"
    by (auto simp: find_Some_iff)
  with d y show "y = x"
    by (metis distinct_map inj_onD)
qed

lemma logEvent_rows:
  "logEvent e ev (d, n) = Inr (d', n') \<Longrightarrow> translation_rows d' = translation_rows d"
  by (auto simp: logEvent_def insert_event_def split: if_splits)

lemma putWrite_rows:
  assumes "putWrite e u tid body ex (d, n) = (res, (d', n'))"
  shows "(res \<noteq> Inr Updated_200 \<and> translation_rows d' = translation_rows d)
       \<or> translation_rows d' =
            map (\<lambda>t. if tr_id t = tid then apply_translation_set (updateData body ex) t else t)
              (translation_rows d)"
proof (cases "update_translation e tid (updateData body ex) d")
  case (Inl err)
  then show ?thesis using assms by (auto simp: putWrite_def)
next
  case (Inr d1)
  then have r1: "translation_rows d1 =
            map (\<lambda>t. if tr_id t = tid then apply_translation_set (updateData body ex) t else t)
              (translation_rows d)"
    by (auto simp: update_translation_def split: if_splits)
  show ?thesis
  proof (cases "logEvent e
                      \<lparr> eld_actor = sub u, eld_action = ''update'',
                        eld_entityType = ''translation'', eld_entityId = tid,
                        eld_before = Some (JObj (translation_state_json ex)),
                        eld_after = Some (JObj (translation_state_json
                            (apply_translation_set (updateData body ex) ex)
                            @ [(''updatedAt'', JStr (now e))])) \<rparr> (d1, n)")
    case (Inl err)
    then show ?thesis using assms Inr r1 by (auto simp: putWrite_def)
  next
    case (Inr s2)
    then have "translation_rows (fst s2) = translation_rows d1"
      using logEvent_rows[of e _ d1 n "fst s2" "snd s2"] by simp
    then show ?thesis using assms \<open>update_translation e tid (updateData body ex) d = Inr d1\<close> Inr r1
      by (auto simp: putWrite_def)
  qed
qed

lemma translationPUT_cases:
  assumes "translationPUT e user tid parsed (d, n) = (res, (d', n'))"
  shows "(res \<noteq> Inr Updated_200 \<and> d' = d)
       \<or> (\<exists>u body ex. find (\<lambda>t. tr_id t = tid) (translation_rows d) = Some ex
              \<and> putWrite e u tid body ex (d, n) = (res, (d', n')))"
  using assms
  by (auto simp: translationPUT_def find_translation_with_key_def
      split: option.splits sum.splits bool.splits if_splits)

lemma translationPUT_rows:
  assumes "translationPUT e user tid parsed (d, n) = (res, (d', n'))"
  shows "(res \<noteq> Inr Updated_200 \<and> translation_rows d' = translation_rows d)
       \<or> (\<exists>ex body. find (\<lambda>t. tr_id t = tid) (translation_rows d) = Some ex
              \<and> translation_rows d' =
                  map (\<lambda>t. if tr_id t = tid then apply_translation_set (updateData body ex) t else t)
                    (translation_rows d))"
  using translationPUT_cases[OF assms] putWrite_rows by blast

lemma apply_translation_set_id [simp]: "tr_id (apply_translation_set s t) = tr_id t"
  by (simp add: apply_translation_set_def)

lemma version_updateData [simp]:
  "version (apply_translation_set (updateData body ex) t) = version ex + 1"
  by (simp add: apply_translation_set_def updateData_def)

lemma importTranslation_update:
  assumes "etm (td_locale t) = Some ex" and "translationChanged ex t"
    and "importTranslation e userId keyData etm t (d, n) = Inr (d', n')"
  shows "translation_rows d' =
           map (\<lambda>r. if tr_id r = tr_id ex
                  then r\<lparr> tr_value := Some (td_value t), tr_status := td_status t,
                         version := td_version t \<rparr>
                  else r) (translation_rows d)"
  using assms
  by (auto simp: importTranslation_def update_translation_def insert_event_def
      apply_translation_set_def
      split: sum.splits if_splits)

lemma putWrite_versions:
  assumes "putWrite e u tid body ex (d, n) = (res, (d', n'))"
  shows "list_all2 (\<lambda>t t'. t' = t \<or> (tr_id t = tid \<and> tr_id t' = tid \<and> version t' = version ex + 1))
           (translation_rows d) (translation_rows d')"
    and "res = Inr Updated_200 \<Longrightarrow>
         list_all2 (\<lambda>t t'. if tr_id t = tid then version t' = version ex + 1 else t' = t)
           (translation_rows d) (translation_rows d')"
proof -
  from putWrite_rows[OF assms]
  show "list_all2 (\<lambda>t t'. t' = t \<or> (tr_id t = tid \<and> tr_id t' = tid \<and> version t' = version ex + 1))
           (translation_rows d) (translation_rows d')"
  proof
    assume "res \<noteq> Inr Updated_200 \<and> translation_rows d' = translation_rows d"
    then show ?thesis by (simp add: list_all2_same)
  next
    assume rows: "translation_rows d' =
            map (\<lambda>t. if tr_id t = tid then apply_translation_set (updateData body ex) t else t)
              (translation_rows d)"
    show ?thesis
      unfolding rows list_all2_map2
      by (auto simp: list_all2_same)
  qed
next
  assume ok: "res = Inr Updated_200"
  from putWrite_rows[OF assms] ok
  have rows: "translation_rows d' =
            map (\<lambda>t. if tr_id t = tid then apply_translation_set (updateData body ex) t else t)
              (translation_rows d)"
    by blast
  show "list_all2 (\<lambda>t t'. if tr_id t = tid then version t' = version ex + 1 else t' = t)
           (translation_rows d) (translation_rows d')"
    unfolding rows list_all2_map2
    by (auto simp: list_all2_same)
qed

lemma import_body2_parsed:
  "importPayloadSchema import_body2
   = Some \<lparr> ip_dryRun = False, ip_service = ''web'',
            ip_keys = [kd2\<lparr> kd_translations := [td2\<lparr> td_version := 1 \<rparr>] \<rparr>] \<rparr>"
  by code_simp

text \<open>
  Claim C3, as stated, fails: an import whose payload carries version 1 for a translation
  stored with version 5 is accepted by the schema, answered with 201, and writes
  version 1.
\<close>

theorem import_lowers_version_counterexample:
  "map version (translation_rows db3) = [5]
   \<and> fst (importPOST env0 (Some u_editor) import_body2 (db3, 0)) = Inr (Imported_201 1 1)
   \<and> map version (translation_rows (fst (snd (importPOST env0 (Some u_editor) import_body2 (db3, 0)))))
     = [1]"
  by code_simp

text \<open>
  The update route reads the translation, awaits the access check, and then writes the
  version it read plus 1. When another request writes the translation between the read
  and the write, the version stored before the write is not the version read: two
  requests that both read \<open>t1\<close> at version 5 are both answered with 200, and the second
  write leaves the version at 6.
\<close>

lemma stale_read_writes_same_version:
  "(case putWrite env0 u_editor ''t1'' body1 tr1 (db2, 0) of
      (r1, s1) \<Rightarrow>
        (case putWrite env0 u_editor ''t1'' body1 tr1 s1 of
           (r2, s2) \<Rightarrow> (r1, map version (translation_rows (fst s1)),
                         r2, map version (translation_rows (fst s2)))))
   = (Inr Updated_200, [6], Inr Updated_200, [6])"
  by code_simp

text \<open>
  Claim C3, amended. With unique translation ids. (1) The write of the update route,
  given the row \<open>ex\<close> that the handler read and run in whatever state the database is in
  by then, leaves every translation row as it was or gives the row of the given id the
  version of \<open>ex\<close> plus 1; when the route answers 200 the row of that id has the version of
  \<open>ex\<close> plus 1. (2) When nothing is written between the handler's read and its write
  (requests are served one at a time, which is \<open>translationPUT\<close>), every row is left as
  it was or is the row of the given id with its stored version raised by exactly 1, and
  when the route answers 200 that row exists and its version is the one before plus 1.
  (3) An \<^verbatim>\<open>update_translation\<close> write of \<open>applyImport\<close> (an incoming translation that differs
  from the stored one of its locale) sets value, status and version to those of the
  payload: the new version is the incoming one, whatever the stored version was.
\<close>

theorem version_written_by_update_and_import:
  assumes "distinct (map tr_id (translation_rows d))"
  shows "(putWrite e1 u tid body ex1 (d, n) = (res1, (d1, n1)) \<longrightarrow>
            list_all2 (\<lambda>t t'. t' = t \<or> (tr_id t = tid \<and> tr_id t' = tid \<and> version t' = version ex1 + 1))
              (translation_rows d) (translation_rows d1)
          \<and> (res1 = Inr Updated_200 \<longrightarrow>
                list_all2 (\<lambda>t t'. if tr_id t = tid then version t' = version ex1 + 1 else t' = t)
                  (translation_rows d) (translation_rows d1)))
       \<and> (translationPUT e user tid parsed (d, n) = (res, (d', n')) \<longrightarrow>
            list_all2 (\<lambda>t t'. t' = t \<or> (tr_id t = tid \<and> tr_id t' = tid \<and> version t' = version t + 1))
              (translation_rows d) (translation_rows d')
          \<and> (res = Inr Updated_200 \<longrightarrow>
                tid \<in> set (map tr_id (translation_rows d))
              \<and> list_all2 (\<lambda>t t'. if tr_id t = tid then version t' = version t + 1 else t' = t)
                  (translation_rows d) (translation_rows d')))
       \<and> (etm (td_locale t) = Some ex \<and> translationChanged ex t
          \<and> importTranslation e2 userId keyData etm t (d, n) = Inr (d2, n2) \<longrightarrow>
            translation_rows d2 =
              map (\<lambda>r. if tr_id r = tr_id ex
                     then r\<lparr> tr_value := Some (td_value t), tr_status := td_status t,
                            version := td_version t \<rparr>
                     else r) (translation_rows d))"
proof (intro conjI impI)
  assume w: "putWrite e1 u tid body ex1 (d, n) = (res1, (d1, n1))"
  show "list_all2 (\<lambda>t t'. t' = t \<or> (tr_id t = tid \<and> tr_id t' = tid \<and> version t' = version ex1 + 1))
          (translation_rows d) (translation_rows d1)"
    using putWrite_versions(1)[OF w] .
next
  assume w: "putWrite e1 u tid body ex1 (d, n) = (res1, (d1, n1))" and ok: "res1 = Inr Updated_200"
  show "list_all2 (\<lambda>t t'. if tr_id t = tid then version t' = version ex1 + 1 else t' = t)
          (translation_rows d) (translation_rows d1)"
    using putWrite_versions(2)[OF w ok] .
next
  assume put: "translationPUT e user tid parsed (d, n) = (res, (d', n'))"
  from translationPUT_rows[OF put]
  show "list_all2 (\<lambda>t t'. t' = t \<or> (tr_id t = tid \<and> tr_id t' = tid \<and> version t' = version t + 1))
          (translation_rows d) (translation_rows d')"
  proof
    assume "res \<noteq> Inr Updated_200 \<and> translation_rows d' = translation_rows d"
    then show ?thesis by (simp add: list_all2_same)
  next
    assume "\<exists>ex body. find (\<lambda>t. tr_id t = tid) (translation_rows d) = Some ex
              \<and> translation_rows d' =
                  map (\<lambda>t. if tr_id t = tid then apply_translation_set (updateData body ex) t else t)
                    (translation_rows d)"
    then obtain ex body where ex: "find (\<lambda>t. tr_id t = tid) (translation_rows d) = Some ex"
      and rows: "translation_rows d' =
                  map (\<lambda>t. if tr_id t = tid then apply_translation_set (updateData body ex) t else t)
                    (translation_rows d)"
      by blast
    have "\<And>t. t \<in> set (translation_rows d) \<Longrightarrow> tr_id t = tid \<Longrightarrow> t = ex"
      using find_unique[OF assms ex] by blast
    then show ?thesis
      unfolding rows list_all2_map2
      by (auto simp: list_all2_same)
  qed
next
  assume put: "translationPUT e user tid parsed (d, n) = (res, (d', n'))"
    and ok: "res = Inr Updated_200"
  from translationPUT_rows[OF put] ok
  obtain ex body where ex: "find (\<lambda>t. tr_id t = tid) (translation_rows d) = Some ex"
      and rows: "translation_rows d' =
                  map (\<lambda>t. if tr_id t = tid then apply_translation_set (updateData body ex) t else t)
                    (translation_rows d)"
    by blast
  from ex show "tid \<in> set (map tr_id (translation_rows d))"
    by (auto simp: find_Some_iff)
  have "\<And>t. t \<in> set (translation_rows d) \<Longrightarrow> tr_id t = tid \<Longrightarrow> t = ex"
    using find_unique[OF assms ex] by blast
  then show "list_all2 (\<lambda>t t'. if tr_id t = tid then version t' = version t + 1 else t' = t)
          (translation_rows d) (translation_rows d')"
    unfolding rows list_all2_map2
    by (auto simp: list_all2_same)
next
  assume "etm (td_locale t) = Some ex \<and> translationChanged ex t
          \<and> importTranslation e2 userId keyData etm t (d, n) = Inr (d2, n2)"
  then show "translation_rows d2 =
              map (\<lambda>r. if tr_id r = tr_id ex
                     then r\<lparr> tr_value := Some (td_value t), tr_status := td_status t,
                            version := td_version t \<rparr>
                     else r) (translation_rows d)"
    using importTranslation_update by blast
qed

theorem version_written_by_update_and_import_witness:
  "distinct (map tr_id (translation_rows db2))
   \<and> fst (putWrite env0 u_editor ''t1'' body1 tr1 (db2, 0)) = Inr Updated_200
   \<and> list_all2 (\<lambda>t t'. if tr_id t = ''t1'' then version t' = version tr1 + 1 else t' = t)
        (translation_rows db2)
        (translation_rows (fst (snd (putWrite env0 u_editor ''t1'' body1 tr1 (db2, 0)))))
   \<and> fst (translationPUT env0 (Some u_editor) ''t1'' (Some body1) (db2, 0)) = Inr Updated_200
   \<and> ''t1'' \<in> set (map tr_id (translation_rows db2))
   \<and> list_all2 (\<lambda>t t'. if tr_id t = ''t1'' then version t' = version t + 1 else t' = t)
        (translation_rows db2)
        (translation_rows (fst (snd (translationPUT env0 (Some u_editor) ''t1'' (Some body1) (db2, 0)))))
   \<and> distinct (map tr_id (translation_rows db3))
   \<and> existingTranslationMap [tr2] (td_locale (td2\<lparr> td_version := 1 \<rparr>)) = Some tr2
   \<and> translationChanged tr2 (td2\<lparr> td_version := 1 \<rparr>)
   \<and> importTranslation env0 ''e1'' kd2 (existingTranslationMap [tr2]) (td2\<lparr> td_version := 1 \<rparr>)
         (db3, 0)
       = Inr (db3\<lparr> translation_rows := [tr2\<lparr> version := 1 \<rparr>],
                   event_rows := [update_translation_event ''u'' ''e1'' tr2
                                    (td2\<lparr> td_version := 1 \<rparr>)] \<rparr>, 1)
   \<and> map version (translation_rows db3) = [5]
   \<and> map version
         (map (\<lambda>r. if tr_id r = tr_id tr2
                 then r\<lparr> tr_value := Some (td_value (td2\<lparr> td_version := 1 \<rparr>)),
                        tr_status := td_status (td2\<lparr> td_version := 1 \<rparr>),
                        version := td_version (td2\<lparr> td_version := 1 \<rparr>) \<rparr>
                 else r) (translation_rows db3)) = [1]"
proof -
  have h: "distinct (map tr_id (translation_rows db2))"
    by (simp add: db2_def)
  have w: "fst (putWrite env0 u_editor ''t1'' body1 tr1 (db2, 0)) = Inr Updated_200"
    by code_simp
  have weq: "putWrite env0 u_editor ''t1'' body1 tr1 (db2, 0)
      = (Inr Updated_200,
         (fst (snd (putWrite env0 u_editor ''t1'' body1 tr1 (db2, 0))),
          snd (snd (putWrite env0 u_editor ''t1'' body1 tr1 (db2, 0)))))"
    using w by (metis prod.collapse)
  have r: "fst (translationPUT env0 (Some u_editor) ''t1'' (Some body1) (db2, 0)) = Inr Updated_200"
    by code_simp
  have eq: "translationPUT env0 (Some u_editor) ''t1'' (Some body1) (db2, 0)
      = (Inr Updated_200,
         (fst (snd (translationPUT env0 (Some u_editor) ''t1'' (Some body1) (db2, 0))),
          snd (snd (translationPUT env0 (Some u_editor) ''t1'' (Some body1) (db2, 0)))))"
    using r by (metis prod.collapse)
  have h3: "distinct (map tr_id (translation_rows db3))"
    by (simp add: db3_def)
  have l: "existingTranslationMap [tr2] (td_locale (td2\<lparr> td_version := 1 \<rparr>)) = Some tr2"
    by (simp add: existingTranslationMap_def js_map_get_def td2_def tr2_def)
  have c: "translationChanged tr2 (td2\<lparr> td_version := 1 \<rparr>)"
    by (simp add: translationChanged_def td2_def tr2_def)
  have i: "importTranslation env0 ''e1'' kd2 (existingTranslationMap [tr2]) (td2\<lparr> td_version := 1 \<rparr>)
         (db3, 0)
       = Inr (db3\<lparr> translation_rows := [tr2\<lparr> version := 1 \<rparr>],
                   event_rows := [update_translation_event ''u'' ''e1'' tr2
                                    (td2\<lparr> td_version := 1 \<rparr>)] \<rparr>, 1)"
    by code_simp
  have v: "map version (translation_rows db3) = [5]"
    by (simp add: db3_def tr2_def)
  note put = version_written_by_update_and_import[OF h,
        where ?e1.0 = env0 and u = u_editor and tid = "''t1''" and body = body1 and ?ex1.0 = tr1
          and n = 0 and ?res1.0 = "Inr Updated_200"
          and ?d1.0 = "fst (snd (putWrite env0 u_editor ''t1'' body1 tr1 (db2, 0)))"
          and ?n1.0 = "snd (snd (putWrite env0 u_editor ''t1'' body1 tr1 (db2, 0)))"
          and e = env0 and user = "Some u_editor" and parsed = "Some body1"
          and res = "Inr Updated_200"
          and d' = "fst (snd (translationPUT env0 (Some u_editor) ''t1'' (Some body1) (db2, 0)))"
          and n' = "snd (snd (translationPUT env0 (Some u_editor) ''t1'' (Some body1) (db2, 0)))"]
  note imp = version_written_by_update_and_import[OF h3,
        where etm = "existingTranslationMap [tr2]" and t = "td2\<lparr> td_version := 1 \<rparr>"
          and ex = tr2 and ?e2.0 = env0 and userId = "''e1''" and keyData = kd2 and n = 0
          and ?d2.0 = "db3\<lparr> translation_rows := [tr2\<lparr> version := 1 \<rparr>],
                   event_rows := [update_translation_event ''u'' ''e1'' tr2
                                    (td2\<lparr> td_version := 1 \<rparr>)] \<rparr>" and ?n2.0 = 1]
  have p1: "list_all2 (\<lambda>t t'. if tr_id t = ''t1'' then version t' = version tr1 + 1 else t' = t)
        (translation_rows db2)
        (translation_rows (fst (snd (putWrite env0 u_editor ''t1'' body1 tr1 (db2, 0)))))"
    using put weq by blast
  have p2: "''t1'' \<in> set (map tr_id (translation_rows db2))
     \<and> list_all2 (\<lambda>t t'. if tr_id t = ''t1'' then version t' = version t + 1 else t' = t)
        (translation_rows db2)
        (translation_rows (fst (snd (translationPUT env0 (Some u_editor) ''t1'' (Some body1) (db2, 0)))))"
    using put eq by blast
  show ?thesis
    using p1 p2 imp h w r h3 l c i v
    by (simp add: db3_def tr2_def td2_def)
qed

section \<open>Import: entries that change nothing\<close>





lemma foldl_noop: "(\<And>x. x \<in> set xs \<Longrightarrow> f r x = r) \<Longrightarrow> foldl f r xs = r"
  by (induction xs) simp_all



text \<open>The fields of an existing key are taken as unchanged exactly when key name, tags (as
  lists) and status are equal and the namespace id is the same string on both sides; a
  key stored without a namespace is taken as changed whatever the payload says.\<close>

lemma keyChanged_iff:
  "keyChanged existingKey keyData \<longleftrightarrow>
     \<not> (keyName existingKey = kd_keyName keyData
        \<and> (\<exists>ns. key_namespaceId existingKey = Some ns \<and> kd_namespaceId keyData = Some ns)
        \<and> tags existingKey = kd_tags keyData
        \<and> key_status existingKey = kd_status keyData)"
  by (auto simp: keyChanged_def namespace_differs_def split: option.splits)

lemma null_namespace_always_changed:
  "key_namespaceId existingKey = None \<Longrightarrow> keyChanged existingKey keyData"
  by (simp add: keyChanged_def namespace_differs_def)



section \<open>Dry run\<close>

lemma import_body1_parsed: "importPayloadSchema import_body1 = Some payload1"
  by code_simp

text \<open>
  Claim C6. For every environment, identity and starting state, and every body that the
  schema accepts with \<^verbatim>\<open>dryRun\<close> set, the import route leaves the state (all tables) as it
  was; doing so any number of times leaves it as it was, and the response after \<open>n\<close> dry
  runs is the response of the first.
\<close>

theorem dry_run_leaves_state_unchanged:
  assumes "importPayloadSchema body = Some payload" and "ip_dryRun payload"
  shows "snd (importPOST e user body s) = s
       \<and> ((\<lambda>s'. snd (importPOST e user body s')) ^^ n) s = s
       \<and> fst (importPOST e user body (((\<lambda>s'. snd (importPOST e user body s')) ^^ n) s))
           = fst (importPOST e user body s)"
proof -
  have one: "\<And>s'. snd (importPOST e user body s') = s'"
    using assms
    by (auto simp: importPOST_def split: option.splits sum.splits bool.splits)
  have many: "((\<lambda>s'. snd (importPOST e user body s')) ^^ n) s = s"
    by (induction n) (simp_all add: one)
  show ?thesis using one many by simp
qed

theorem dry_run_leaves_state_unchanged_witness:
  "importPayloadSchema import_body1 = Some payload1
   \<and> ip_dryRun payload1
   \<and> snd (importPOST env0 (Some u_editor) import_body1 (db3, 0)) = (db3, 0)
   \<and> ((\<lambda>s'. snd (importPOST env0 (Some u_editor) import_body1 s')) ^^ 3) (db3, 0) = (db3, 0)
   \<and> fst (importPOST env0 (Some u_editor) import_body1
                (((\<lambda>s'. snd (importPOST env0 (Some u_editor) import_body1 s')) ^^ 3) (db3, 0)))
           = fst (importPOST env0 (Some u_editor) import_body1 (db3, 0))"
proof -
  have h: "ip_dryRun payload1" by (simp add: payload1_def)
  show ?thesis
    using dry_run_leaves_state_unchanged[OF import_body1_parsed h, of env0 "Some u_editor" "(db3, 0)" 3]
      h import_body1_parsed
    by simp
qed

text \<open>A body the schema refuses is answered with 400 and changes nothing either.\<close>

lemma refused_body_leaves_state_unchanged:
  "importPayloadSchema body = None \<Longrightarrow> importPOST e (Some u) body s = (Inr BadRequest_400, s)"
  by (simp add: importPOST_def)

lemma dry_run_report_example:
  "(case fst (importPOST env0 (Some u_editor) import_body1 (db3, 0)) of
      Inr (DryRun_200 r) \<Rightarrow> map ch_type (changes r) | _ \<Rightarrow> []) = [UpdateKey]"
  by code_simp

section \<open>Export and re-import\<close>

text \<open>
  Claim C4 fails on the code. Service \<open>s1\<close> has one key with a null namespace and one
  translation. The export writes \<^verbatim>\<open>key.namespaceId || undefined\<close>, the dry run compares the
  stored \<^verbatim>\<open>null\<close> with the incoming \<^verbatim>\<open>undefined\<close> by \<^verbatim>\<open>!==\<close>, and reports the key as an
  \<^verbatim>\<open>update_key\<close> although nothing changed.
\<close>

theorem round_trip_reports_update_for_null_namespace:
  "export_then_dry_run env0 (Some u_editor) ''s1'' ''web'' (db2, 0)
   = Inr (Inr (DryRun_200
        \<lparr> keysToCreate = 0, keysToUpdate = 1, translationsToCreate = 0,
          translationsToUpdate = 0,
          changes =
            [\<lparr> ch_type = UpdateKey, ch_keyId = ''k1'', ch_keyName = ''auth.login'',
               ch_locale = None,
               ch_before = Some (JObj [(''keyName'', JStr ''auth.login''), (''namespaceId'', JNull),
                                       (''tags'', JArr []), (''status'', JStr ''active'')]),
               ch_after = JObj [(''keyName'', JStr ''auth.login''), (''tags'', JArr []),
                                (''status'', JStr ''active'')] \<rparr>] \<rparr>),
          (db2, 0))"
  by code_simp

text \<open>The same report comes from \<^verbatim>\<open>generateDiffReport\<close> on the exported keys as they are; the
  schema reads them back from the exported document unchanged.\<close>

lemma round_trip_plan_for_null_namespace:
  "export_then_plan env0 db2 ''s1'' ''web''
   = Inr \<lparr> keysToCreate = 0, keysToUpdate = 1, translationsToCreate = 0,
           translationsToUpdate = 0,
           changes = [update_key_change key1
                        ((exported_key key1)\<lparr> kd_translations := [exported_translation tr1] \<rparr>)] \<rparr>"
  by code_simp

lemma exported_document_parsed:
  "(case generateExportData env0 db2 ''s1'' ''web'' default_options of
      Inl err \<Rightarrow> None
    | Inr exportData \<Rightarrow>
        map_option (\<lambda>p. ip_keys p = ex_keys exportData)
          (importPayloadSchema (dry_run_body exportData))) = Some True"
  by code_simp

text \<open>A translation whose value is null is exported as the empty string
  (\<^verbatim>\<open>trans.value || ""\<close>) and then reported as an \<^verbatim>\<open>update_translation\<close>.\<close>

lemma round_trip_reports_update_for_null_value:
  "(case export_then_plan env0 db4 ''s1'' ''web'' of
      Inl err \<Rightarrow> []
    | Inr r \<Rightarrow> map ch_type (changes r)) = [UpdateTranslation]"
  by code_simp

text \<open>With a namespace and a value, the same service round-trips with an empty report.\<close>

lemma round_trip_example: "export_then_plan env0 db3 ''s1'' ''web'' = Inr empty_report"
  by code_simp

text \<open>
  Where the round trip does hold: with unique key ids, when every key of the service has
  a non-empty namespace id, every translation has a value, and no key has two
  translations of the same locale, exporting the service with the default options and
  planning the import of the result gives the empty report.
\<close>

lemma export_rows_default:
  assumes "export_rows e d sid default_options = Inr rows" and "(k, row) \<in> set rows"
  shows "k \<in> set (key_rows d) \<and> key_serviceId k = Some sid
         \<and> (\<exists>t \<in> set (translation_rows d). row = Some t \<and> tr_keyId t = key_id k)"
proof -
  have rows: "rows = filter (\<lambda>(k, row). keyConds sid default_options k
                              \<and> translationConds default_options row)
             (concat (map (\<lambda>k.
                (case filter (\<lambda>t. tr_keyId t = key_id k) (translation_rows d) of
                   [] \<Rightarrow> (if eo_includeEmpty default_options then [(k, None)] else [])
                 | ts \<Rightarrow> map (\<lambda>t. (k, Some t)) ts))
               (key_rows d)))"
    using assms(1) by (auto simp: export_rows_def split: if_splits)
  from assms(2) obtain k' where k': "k' \<in> set (key_rows d)"
    and mem: "(k, row) \<in> set (case filter (\<lambda>t. tr_keyId t = key_id k') (translation_rows d) of
                   [] \<Rightarrow> (if eo_includeEmpty default_options then [(k', None)] else [])
                 | ts \<Rightarrow> map (\<lambda>t. (k', Some t)) ts)"
    and kc: "keyConds sid default_options k"
    unfolding rows by auto
  from mem have "k = k' \<and> (\<exists>t \<in> set (filter (\<lambda>t. tr_keyId t = key_id k') (translation_rows d)). row = Some t)"
    by (cases "filter (\<lambda>t. tr_keyId t = key_id k') (translation_rows d)")
       (auto simp: default_options_def)
  then show ?thesis
    using k' kc by (auto simp: keyConds_def)
qed

lemma exported_key_from:
  "k \<in> set (key_rows d) \<Longrightarrow> key_serviceId k = Some sid \<Longrightarrow> exported_from d sid (exported_key k)"
  by (auto simp: exported_from_def exported_key_def)

lemma group_row_exported_from:
  assumes acc: "\<forall>kd \<in> set acc. exported_from d sid kd"
    and dist: "distinct (map key_id (key_rows d))"
    and k: "k \<in> set (key_rows d)" "key_serviceId k = Some sid"
    and t: "t \<in> set (translation_rows d)" "tr_keyId t = key_id k"
  shows "\<forall>kd \<in> set (group_row acc (k, Some t)). exported_from d sid kd"
proof -
  define acc1 where "acc1 = (if key_id k \<in> set (map kd_id acc) then acc else acc @ [exported_key k])"
  have acc1: "\<forall>kd \<in> set acc1. exported_from d sid kd"
    using acc exported_key_from[OF k] by (auto simp: acc1_def)
  have g: "group_row acc (k, Some t)
        = map (\<lambda>entry. if kd_id entry = key_id k
                 then entry\<lparr> kd_translations := kd_translations entry @ [exported_translation t] \<rparr>
                 else entry) acc1"
    by (simp add: group_row_def acc1_def Let_def)
  have step: "\<And>entry. exported_from d sid entry \<Longrightarrow> kd_id entry = key_id k \<Longrightarrow>
      exported_from d sid
        (entry\<lparr> kd_translations := kd_translations entry @ [exported_translation t] \<rparr>)"
  proof -
    fix entry assume ef: "exported_from d sid entry" and id: "kd_id entry = key_id k"
    from ef obtain k' where k': "k' \<in> set (key_rows d)" "key_serviceId k' = Some sid"
      "kd_id entry = key_id k'" "kd_keyName entry = keyName k'"
      "kd_namespaceId entry = or_undefined (key_namespaceId k')" "kd_tags entry = tags k'"
      "kd_status entry = key_status k'"
      "\<forall>td \<in> set (kd_translations entry).
          \<exists>t \<in> set (translation_rows d). tr_keyId t = key_id k' \<and> td = exported_translation t"
      unfolding exported_from_def by blast
    have "k' = k"
      using dist k(1) k'(1,3) id by (metis distinct_map inj_onD)
    then show "exported_from d sid
        (entry\<lparr> kd_translations := kd_translations entry @ [exported_translation t] \<rparr>)"
      unfolding exported_from_def using k' t by (intro bexI[of _ k]) auto
  qed
  show ?thesis
    unfolding g using acc1 step by auto
qed

lemma foldl_group_row_exported_from:
  assumes "\<forall>kd \<in> set acc. exported_from d sid kd"
    and "distinct (map key_id (key_rows d))"
    and "\<forall>(k, row) \<in> set rows. k \<in> set (key_rows d) \<and> key_serviceId k = Some sid
           \<and> (\<exists>t \<in> set (translation_rows d). row = Some t \<and> tr_keyId t = key_id k)"
  shows "\<forall>kd \<in> set (foldl group_row acc rows). exported_from d sid kd"
  using assms
proof (induction rows arbitrary: acc)
  case Nil
  then show ?case by simp
next
  case (Cons r rows)
  obtain k row where r: "r = (k, row)" by (cases r)
  with Cons.prems(3) obtain t where kt: "k \<in> set (key_rows d)" "key_serviceId k = Some sid"
      "t \<in> set (translation_rows d)" "row = Some t" "tr_keyId t = key_id k"
    by auto
  have "\<forall>kd \<in> set (group_row acc r). exported_from d sid kd"
    unfolding r kt(4)
    using group_row_exported_from[OF Cons.prems(1,2) kt(1,2,3,5)] .
  then show ?case
    using Cons.IH[of "group_row acc r"] Cons.prems(2,3) by simp
qed

lemma set_insort_by: "set (insort_by cmp x xs) = insert x (set xs)"
  by (induction xs) auto

lemma set_sort_by: "set (sort_by cmp xs) = set xs"
  by (induction xs) (simp_all add: sort_by_def set_insort_by)

lemma exported_from_sorted:
  "exported_from d sid kd \<Longrightarrow>
   exported_from d sid (kd\<lparr> kd_translations := sort_by cmp (kd_translations kd) \<rparr>)"
  by (simp add: exported_from_def set_sort_by)

lemma export_keys_exported_from:
  assumes "generateExportData e d sid code default_options = Inr ex"
    and "distinct (map key_id (key_rows d))"
  shows "\<forall>kd \<in> set (ex_keys ex). exported_from d sid kd"
proof -
  from assms(1) obtain rows where rows: "export_rows e d sid default_options = Inr rows"
    by (auto simp: generateExportData_def split: sum.splits)
  have r: "\<forall>(k, row) \<in> set rows. k \<in> set (key_rows d) \<and> key_serviceId k = Some sid
           \<and> (\<exists>t \<in> set (translation_rows d). row = Some t \<and> tr_keyId t = key_id k)"
    using export_rows_default[OF rows] by auto
  have g: "\<forall>kd \<in> set (foldl group_row [] rows). exported_from d sid kd"
    by (rule foldl_group_row_exported_from[OF _ assms(2) r]) simp
  have "ex_keys ex =
      map (\<lambda>key. key\<lparr> kd_translations :=
                        sort_by (\<lambda>a b. localeCompare e (locale_str (td_locale a))
                                          (locale_str (td_locale b)))
                          (kd_translations key) \<rparr>)
        (sort_by (\<lambda>a b. localeCompare e (kd_keyName a) (kd_keyName b)) (foldl group_row [] rows))"
    using assms(1) rows by (auto simp: generateExportData_def Let_def)
  then show ?thesis
    using g exported_from_sorted by (auto simp: set_sort_by)
qed

lemma js_map_get_distinct:
  assumes "distinct (map fst xs)" and "(a, b) \<in> set xs"
  shows "js_map_get xs a = Some b"
proof -
  have "distinct (map fst (rev xs))" using assms(1) by (simp add: rev_map[symmetric])
  moreover have "(a, b) \<in> set (rev xs)" using assms(2) by simp
  ultimately show ?thesis
    unfolding js_map_get_def by (rule map_of_is_SomeI)
qed

lemma exported_entry_is_noop:
  assumes ef: "exported_from d sid kd"
    and fk: "find_service_keys e d sid = Inr existingKeys"
    and dist: "distinct (map key_id (key_rows d))"
    and ns: "\<forall>k \<in> set (key_rows d). key_serviceId k = Some sid \<longrightarrow> \<not> falsy (key_namespaceId k)"
    and val: "\<forall>t \<in> set (translation_rows d). tr_value t \<noteq> None"
    and loc: "\<forall>k \<in> set (key_rows d).
                distinct (map tr_locale (filter (\<lambda>t. tr_keyId t = key_id k) (translation_rows d)))"
  shows "diffKey (existingKeyMap existingKeys) r kd = r"
proof -
  from ef obtain k where k: "k \<in> set (key_rows d)" "key_serviceId k = Some sid"
      "kd_id kd = key_id k" "kd_keyName kd = keyName k"
      "kd_namespaceId kd = or_undefined (key_namespaceId k)" "kd_tags kd = tags k"
      "kd_status kd = key_status k"
      and tds: "\<forall>td \<in> set (kd_translations kd).
          \<exists>t \<in> set (translation_rows d). tr_keyId t = key_id k \<and> td = exported_translation t"
    unfolding exported_from_def by blast
  define ets where "ets = filter (\<lambda>t. tr_keyId t = key_id k) (translation_rows d)"
  have ek: "existingKeys = map (\<lambda>k. (k, filter (\<lambda>t. tr_keyId t = key_id k) (translation_rows d)))
                 (filter (\<lambda>k. key_serviceId k = Some sid) (key_rows d))"
    using fk by (auto simp: find_service_keys_def split: if_splits)
  have d1: "distinct (map fst (map (\<lambda>ek. (key_id (fst ek), ek)) existingKeys))"
    unfolding ek using dist by (simp add: o_def distinct_map_filter)
  have m1: "(key_id k, (k, ets)) \<in> set (map (\<lambda>ek. (key_id (fst ek), ek)) existingKeys)"
    unfolding ek ets_def using k(1,2) by (auto simp: image_iff)
  have look: "existingKeyMap existingKeys (kd_id kd) = Some (k, ets)"
    unfolding existingKeyMap_def k(3) using js_map_get_distinct[OF d1 m1] .
  obtain n where n: "key_namespaceId k = Some n" "n \<noteq> []"
    using ns k(1,2) by (cases "key_namespaceId k") (auto simp: falsy_def)
  have nk: "\<not> keyChanged k kd"
    using k(4-7) n by (simp add: keyChanged_def namespace_differs_def or_undefined_def falsy_def)
  have dl: "distinct (map fst (map (\<lambda>t. (tr_locale t, t)) ets))"
    using loc k(1) by (simp add: ets_def o_def)
  have tr: "\<And>td. td \<in> set (kd_translations kd) \<Longrightarrow>
      diffTranslation kd (existingTranslationMap ets) r td = r"
  proof -
    fix td assume "td \<in> set (kd_translations kd)"
    then obtain t where t: "t \<in> set (translation_rows d)" "tr_keyId t = key_id k"
        "td = exported_translation t"
      using tds by blast
    have "(tr_locale t, t) \<in> set (map (\<lambda>t. (tr_locale t, t)) ets)"
      using t(1,2) by (auto simp: ets_def)
    then have l: "existingTranslationMap ets (td_locale td) = Some t"
      unfolding existingTranslationMap_def t(3)
      using js_map_get_distinct[OF dl] by (simp add: exported_translation_def)
    obtain v where v: "tr_value t = Some v" using val t(1) by auto
    have "\<not> translationChanged t td"
      unfolding t(3) using v
      by (simp add: translationChanged_def value_differs_def exported_translation_def or_empty_def)
    then show "diffTranslation kd (existingTranslationMap ets) r td = r"
      using l by (simp add: diffTranslation_def)
  qed
  have "foldl (diffTranslation kd (existingTranslationMap ets)) r (kd_translations kd) = r"
    using tr by (rule foldl_noop)
  then show ?thesis
    using look nk by (simp add: diffKey_def)
qed

lemma round_trip_when_normalised:
  assumes "\<not> fails e Select_key"
    and dist: "distinct (map key_id (key_rows d))"
    and ns: "\<forall>k \<in> set (key_rows d). key_serviceId k = Some sid \<longrightarrow> \<not> falsy (key_namespaceId k)"
    and val: "\<forall>t \<in> set (translation_rows d). tr_value t \<noteq> None"
    and loc: "\<forall>k \<in> set (key_rows d).
                distinct (map tr_locale (filter (\<lambda>t. tr_keyId t = key_id k) (translation_rows d)))"
  shows "export_then_plan e d sid code = Inr empty_report"
proof -
  obtain ex where ex: "generateExportData e d sid code default_options = Inr ex"
    using assms(1) by (auto simp: generateExportData_def export_rows_def Let_def)
  obtain existingKeys where fk: "find_service_keys e d sid = Inr existingKeys"
    using assms(1) by (auto simp: find_service_keys_def)
  have "\<And>kd. kd \<in> set (ex_keys ex) \<Longrightarrow> diffKey (existingKeyMap existingKeys) empty_report kd = empty_report"
    using export_keys_exported_from[OF ex dist] exported_entry_is_noop[OF _ fk dist ns val loc]
    by blast
  then have "foldl (diffKey (existingKeyMap existingKeys)) empty_report (ex_keys ex) = empty_report"
    by (rule foldl_noop)
  then show ?thesis
    using ex fk by (simp add: export_then_plan_def generateDiffReport_def)
qed

section \<open>Redaction\<close>

text \<open>
  A call of \<^verbatim>\<open>redactSensitiveData\<close> that finds every \<^verbatim>\<open>RegExp\<close> object global and with
  \<^verbatim>\<open>lastIndex\<close> 0 leaves it so: a failed \<^verbatim>\<open>test\<close> resets \<^verbatim>\<open>lastIndex\<close>, and a successful one is
  followed by \<^verbatim>\<open>replace\<close>, which resets it. So as long as nothing else uses the patterns,
  the result of a call does not depend on the calls before it.
\<close>

lemma test_and_replace_at_rest:
  assumes "rx_global rx" and "lastIndex rx = 0"
  shows "snd (snd (test_and_replace v m rx rv)) = rx"
  using assms
  by (simp add: test_and_replace_def regexp_test_def string_replace_def case_prod_unfold
      split: option.splits bool.splits)

lemma pii_loop_at_rest:
  "list_all (\<lambda>entry. rx_global (snd entry) \<and> lastIndex (snd entry) = 0) ps \<Longrightarrow>
   snd (pii_loop v ps acc) = ps"
proof (induction ps arbitrary: acc)
  case Nil
  then show ?case by simp
next
  case (Cons entry rest)
  then have e: "snd (snd (test_and_replace v (pattern_marker (fst entry)) (snd entry) (fst acc)))
                = snd entry"
    by (simp add: test_and_replace_at_rest)
  show ?case
    using Cons e
    by (simp add: case_prod_unfold)
qed

lemma custom_loop_at_rest:
  "list_all (\<lambda>pattern. rx_global pattern \<and> lastIndex pattern = 0) ps \<Longrightarrow>
   snd (custom_loop v index ps acc) = ps"
proof (induction ps arbitrary: acc index)
  case Nil
  then show ?case by simp
next
  case (Cons pattern rest)
  then have e: "snd (snd (test_and_replace v (str ''[CUSTOM_PII_REDACTED]'') pattern (fst acc)))
                = pattern"
    by (simp add: test_and_replace_at_rest)
  show ?case
    using Cons e
    by (simp add: case_prod_unfold)
qed

lemma redactStringValue_at_rest:
  assumes "at_rest st"
  shows "snd (redactStringValue v st) = st"
proof (cases st)
  case (Pair config patterns)
  have p: "\<And>acc. snd (pii_loop v patterns acc) = patterns"
    using assms Pair by (simp add: at_rest_def pii_loop_at_rest)
  have c: "\<And>ps acc. customPatterns config = Some ps \<Longrightarrow> snd (custom_loop v 0 ps acc) = ps"
    using assms Pair by (simp add: at_rest_def custom_loop_at_rest)
  show ?thesis
    using Pair p c
    by (simp add: redactStringValue_def case_prod_unfold split: option.splits)
qed

lemma redactObjectFields_at_rest:
  "at_rest st \<Longrightarrow> snd (redactObjectFields h x st) = st"
  "at_rest st \<Longrightarrow> snd (redact_items h xs st) = st"
  "at_rest st \<Longrightarrow> snd (redact_entries h kvs out st) = st"
proof (induction h x st and h xs st and h kvs out st
    rule: redactObjectFields_redact_items_redact_entries.induct)
  case (5 h s st)
  then show ?case
    using redactStringValue_at_rest[of st s] by (simp add: case_prod_unfold)
next
  case (9 h x xs st)
  have 1: "snd (redactObjectFields h x st) = st"
    using 9 by simp
  have c: "(fst (redactObjectFields h x st), st) = redactObjectFields h x st"
    using 1 by (metis prod.collapse)
  have "snd (redact_items h xs st) = st"
    using 9(2)[OF c 9(3)] .
  then show ?case
    using 1 by (simp add: case_prod_unfold)
next
  case (11 h kv rest redactedObj st)
  show ?case
  proof (cases "isFieldNameSensitive h (fst kv) (fst st)")
    case True
    then show ?thesis using 11 by simp
  next
    case False
    have 1: "snd (redactObjectFields h (snd kv) st) = st"
      using 11 False by simp
    have c: "(fst (redactObjectFields h (snd kv) st), st) = redactObjectFields h (snd kv) st"
      using 1 by (metis prod.collapse)
    have "snd (redact_entries h rest
                 (assign redactedObj (fst kv) (fst (redactObjectFields h (snd kv) st))) st)
          = st"
      using 11(3)[OF False c 11(4)] .
    then show ?thesis
      using False 1 by (simp add: case_prod_unfold)
  qed
qed (simp_all add: case_prod_unfold)

lemma redact_property_at_rest:
  assumes "at_rest st" and "redact_property h name ev st = Inr (ev1, st1)"
  shows "st1 = st"
proof -
  have "\<And>x. snd (redactObjectFields h x st) = st"
    using redactObjectFields_at_rest(1)[OF assms(1)] .
  then show ?thesis
    using assms(2)
    by (auto simp: redact_property_def Let_def case_prod_unfold split: if_splits option.splits)
qed

lemma redactSensitiveData_at_rest:
  assumes "at_rest st" and "redactSensitiveData h eventRecord st = Inr (redactedEvent, st1)"
  shows "st1 = st"
proof -
  from assms(2) obtain ev1 st2 where
    b: "redact_property h (str ''before'') eventRecord st = Inr (ev1, st2)"
    and a: "redact_property h (str ''after'') ev1 st2 = Inr (redactedEvent, st1)"
    by (auto simp: redactSensitiveData_def split: sum.splits)
  have "st2 = st"
    using redact_property_at_rest[OF assms(1) b] .
  then show ?thesis
    using redact_property_at_rest[OF assms(1)] a by simp
qed

lemma loaded_at_rest: "at_rest loaded"
  by (simp add: at_rest_def loaded_def DEFAULT_REDACTION_CONFIG_def PII_PATTERNS_def
      global_regexp_def)

text \<open>The examples of the specification and of the repository's tests, on the module as
  loaded: a long value, an e-mail address after a word, phone numbers, credit card
  numbers, and an event with nested values. Each call leaves every \<^verbatim>\<open>lastIndex\<close> at 0.\<close>

lemma redact_long_value:
  "redacted_view (redactSensitiveData host0 (value_event (str (replicate 150 CHR ''a''))) loaded)
   = Some (value_event (str ''[REDACTED: 150 characters - exceeds 100 chars]''),
           [0, 0, 0, 0, 0, 0, 0])"
  by code_simp

lemma redact_phone_numbers:
  "redacted_view (redactSensitiveData host0
      (value_event (str ''Call us at (555) 123-4567 or +1-800-555-0199'')) loaded)
   = Some (value_event (str ''Call us at [PHONE_REDACTED] or [PHONE_REDACTED]''),
           [0, 0, 0, 0, 0, 0, 0])"
  by code_simp

lemma redact_credit_cards:
  "redacted_view (redactSensitiveData host0
      (value_event (str ''Payment: 4532 1234 5678 9012 or 5555-4444-3333-2222'')) loaded)
   = Some (value_event (str ''Payment: [CREDITCARD_REDACTED] or [CREDITCARD_REDACTED]''),
           [0, 0, 0, 0, 0, 0, 0])"
  by code_simp

lemma redact_nested_values:
  "redacted_view (redactSensitiveData host0 ev_contact loaded)
   = Some (ev_contact_redacted, [0, 0, 0, 0, 0, 0, 0])"
  by code_simp

text \<open>A value with code units above 255: Hangul syllables and an ideographic space
  (U+3000, white space for \<^verbatim>\<open>\s\<close> and not a word character) before an address.\<close>

lemma redact_after_ideographic_space:
  "redacted_view (redactSensitiveData host0
      (value_event ([50504, 45397, 12288] @ str ''a@b.co'')) loaded)
   = Some (value_event ([50504, 45397, 12288] @ str ''[EMAIL_REDACTED]''), [0, 0, 0, 0, 0, 0, 0])"
  by code_simp

text \<open>
  Claim C7 fails on the code. A pattern is tested on the original value and replaced in
  the value redacted so far, one pattern after the other, and a later replacement can
  create a match of an earlier pattern. In the value
  \<^verbatim>\<open>123456789http://a?b=c 123456789\<close> the SSN pattern matches the second run of nine digits
  and not the first (there is no word boundary between \<^verbatim>\<open>9\<close> and \<^verbatim>\<open>h\<close>). The SSN pattern is
  applied before the URL pattern; once the URL has become a marker, the first run of
  digits is followed by \<^verbatim>\<open>[\<close> and is a match of the SSN pattern, and it stays in the
  output. So the redacted event still holds a match of a pattern that matched in the
  input, \<^verbatim>\<open>validateRedaction\<close> itself refuses the output, and redacting the redacted event
  changes it again. Every call starts and ends with every \<^verbatim>\<open>lastIndex\<close> at 0.
\<close>

theorem redaction_leaves_ssn_and_changes_twice:
  "redacted_view (redactSensitiveData host0
      (value_event (str ''123456789http://a?b=c 123456789'')) loaded)
   = Some (value_event (str ''123456789[URLWITHPARAMS_REDACTED] [SSN_REDACTED]''),
           [0, 0, 0, 0, 0, 0, 0])
   \<and> redacted_view (redact_twice host0
      (value_event (str ''123456789http://a?b=c 123456789'')) loaded)
   = Some (value_event (str ''[SSN_REDACTED][URLWITHPARAMS_REDACTED] [SSN_REDACTED]''),
           [0, 0, 0, 0, 0, 0, 0])
   \<and> fst (regexp_test (global_regexp ssn_re) (str ''123456789http://a?b=c 123456789''))
   \<and> fst (regexp_test (global_regexp ssn_re)
             (str ''123456789[URLWITHPARAMS_REDACTED] [SSN_REDACTED]''))
   \<and> fst (validateRedaction (str ''123456789http://a?b=c 123456789'')
             (str ''123456789[URLWITHPARAMS_REDACTED] [SSN_REDACTED]'') PII_PATTERNS) = False"
  by code_simp

text \<open>The same happens with two different patterns: a phone number glued to an address
  hides the address from the e-mail pattern (no word boundary after \<^verbatim>\<open>co\<close>), and the phone
  marker lays it bare.\<close>

lemma address_uncovered_by_phone_marker:
  "redacted_view (redactSensitiveData host0 (value_event (str ''a@b.co5551234567'')) loaded)
   = Some (value_event (str ''a@b.co[PHONE_REDACTED]''), [0, 0, 0, 0, 0, 0, 0])
   \<and> fst (regexp_test (global_regexp email_re) (str ''a@b.co[PHONE_REDACTED]''))"
  by code_simp

text \<open>The length rule applies to markers too: six addresses in 41 characters become six
  markers, 101 characters in all, and a second redaction replaces all of it.\<close>

lemma markers_redacted_by_length:
  "redacted_view (redactSensitiveData host0 (value_event six_emails) loaded)
   = Some (value_event (str (''[EMAIL_REDACTED] [EMAIL_REDACTED] [EMAIL_REDACTED] ''
                            @ ''[EMAIL_REDACTED] [EMAIL_REDACTED] [EMAIL_REDACTED]'')),
           [0, 0, 0, 0, 0, 0, 0])
   \<and> redacted_view (redact_twice host0 (value_event six_emails) loaded)
   = Some (value_event (str ''[REDACTED: 101 characters - exceeds 100 chars]''),
           [0, 0, 0, 0, 0, 0, 0])"
  by code_simp

text \<open>
  The seven patterns are global and shared with \<^verbatim>\<open>validateRedaction\<close>, which leaves the
  \<^verbatim>\<open>lastIndex\<close> of a pattern that matched where the match ended. After
  \<^verbatim>\<open>validateRedaction("a@b.co", "[EMAIL_REDACTED]")\<close>, which answers true, the e-mail pattern
  has \<^verbatim>\<open>lastIndex\<close> 6; the next redaction of the value \<^verbatim>\<open>a@b.co\<close> tests the pattern from index 6
  on, finds nothing and returns the address as it is. The same call on the module as
  loaded redacts it.
\<close>

lemma redaction_after_validateRedaction:
  "(case validateRedaction (str ''a@b.co'') (str ''[EMAIL_REDACTED]'') PII_PATTERNS of
      (ok, patterns) \<Rightarrow>
        (ok, lastIndexes patterns,
         redacted_view (redactSensitiveData host0 (value_event (str ''a@b.co''))
                          (DEFAULT_REDACTION_CONFIG, patterns))))
   = (True, [6, 0, 0, 0, 0, 0, 0], Some (value_event (str ''a@b.co''), [0, 0, 0, 0, 0, 0, 0]))
   \<and> redacted_view (redactSensitiveData host0 (value_event (str ''a@b.co'')) loaded)
     = Some (value_event (str ''[EMAIL_REDACTED]''), [0, 0, 0, 0, 0, 0, 0])"
  by code_simp

end
